theory Spec2Isabelle
  imports Complex_Main "HOL-Library.Multiset"
begin

section \<open>Data model\<close>

text \<open>
  The four tables of the booking back end (\<^verbatim>\<open>app/models\<close>, \<^verbatim>\<open>alembic/versions/0001_initial.py\<close>).
  Identifiers are the UUID strings of the source. A \<^verbatim>\<open>datetime\<close> is the number of
  microseconds since the epoch, the resolution of Python's \<^verbatim>\<open>datetime\<close>. Python integers are
  \<^typ>\<open>int\<close>. The nullable float \<^verbatim>\<open>rating_avg\<close> is an optional rational, the value of the
  double that the column holds.
\<close>

type_synonym ident = string
type_synonym datetime = int

datatype BookingStatus = CONFIRMED | CANCELLED

record Event =
  event_id :: ident
  title :: string
  description :: string
  host_name :: string
  category :: string
  duration_min :: int
  price_minor :: int
  currency :: string
  rating_avg :: "rat option"
  rating_count :: int
  timezone :: string
  image_url :: "string option"
  created_at :: datetime
  search_vector :: "string option"

record Slot =
  slot_id :: ident
  slot_event_id :: ident
  start_utc :: datetime
  max_bookings :: int
  slot_created_at :: datetime

record Booking =
  booking_id :: ident
  booking_slot_id :: ident
  booking_name :: string
  booking_email :: string
  booking_status :: BookingStatus
  booked_at :: datetime

record Review =
  review_id :: ident
  review_event_id :: ident
  review_booking_id :: ident
  rating :: int
  comment :: "string option"
  review_created_at :: datetime

text \<open>
  Side effects leave the process through two channels: the Celery queue of confirmation
  mails (\<^verbatim>\<open>send_booking_email.delay\<close>) and the Redis topic of slot updates
  (\<^verbatim>\<open>redis_publish\<close>, which swallows its own failures). Both are recorded in an outbox.
\<close>

datatype effect =
  SendBookingEmail ident
  | RedisPublish string ident int bool

text \<open>
  The session: the committed rows of each table, in insertion order, and the outbox.
\<close>

record session =
  events :: "Event list"
  slots :: "Slot list"
  bookings :: "Booking list"
  reviews :: "Review list"
  outbox :: "effect list"

text \<open>
  Exceptions are values. \<^verbatim>\<open>HTTPException\<close> carries its status code and detail;
  \<^verbatim>\<open>IntegrityError\<close> names the violated constraint.
\<close>

datatype error =
  HTTPException nat string
  | IntegrityError string
  | ValueError string
  | AttributeError string
  | MultipleResultsFound
  | ZeroDivisionError
  | OverflowError string
  | NameError string
  | SyntaxError string
  | ImportError string

text \<open>
  A call returns its value or the exception it raised, together with the session as the
  call left it: what was committed before an exception stays committed.
\<close>

type_synonym 'a outcome = "(error + 'a) \<times> session"

section \<open>Slot model: derived properties\<close>

text \<open>
  \<^verbatim>\<open>Slot.bookings\<close> is the relationship on \<^verbatim>\<open>booking.slot_id\<close>: every booking row of the slot,
  whatever its status. \<^verbatim>\<open>is_full\<close> and \<^verbatim>\<open>remaining\<close> take its length.
\<close>

definition slot_bookings :: "session \<Rightarrow> Slot \<Rightarrow> Booking list" where
  "slot_bookings db slot = filter (\<lambda>b. booking_slot_id b = slot_id slot) (bookings db)"

definition is_full :: "session \<Rightarrow> Slot \<Rightarrow> bool" where
  "is_full db slot \<longleftrightarrow> int (length (slot_bookings db slot)) \<ge> max_bookings slot"

definition remaining :: "session \<Rightarrow> Slot \<Rightarrow> int" where
  "remaining db slot = max (max_bookings slot - int (length (slot_bookings db slot))) 0"

section \<open>Booking CRUD helpers\<close>

text \<open>\<^verbatim>\<open>booking_exists\<close>: a CONFIRMED booking with this slot and e-mail exists.\<close>

definition booking_exists :: "session \<Rightarrow> ident \<Rightarrow> string \<Rightarrow> bool" where
  "booking_exists db sid email \<longleftrightarrow>
     int (length (filter (\<lambda>b. booking_slot_id b = sid \<and> booking_email b = email
                              \<and> booking_status b = CONFIRMED) (bookings db))) > 0"

text \<open>\<^verbatim>\<open>booking_count\<close>: the number of CONFIRMED bookings of a slot.\<close>

definition booking_count :: "session \<Rightarrow> ident \<Rightarrow> int" where
  "booking_count db sid =
     int (length (filter (\<lambda>b. booking_slot_id b = sid \<and> booking_status b = CONFIRMED)
                         (bookings db)))"

text \<open>
  \<^verbatim>\<open>session.add\<close> of a new booking followed by \<^verbatim>\<open>session.commit\<close>. The table has the primary
  key \<^verbatim>\<open>id\<close> and the constraint \<^verbatim>\<open>uix_slot_email\<close>, UNIQUE (slot_id, email), with no
  status qualifier; a row that violates either is refused with \<^verbatim>\<open>IntegrityError\<close> and
  nothing is written. Foreign keys are not checked: the objects handed to the functions are
  loaded from the store.
\<close>

definition insert_booking :: "session \<Rightarrow> Booking \<Rightarrow> error + session" where
  "insert_booking db booking =
     (if booking_id booking \<in> set (map booking_id (bookings db))
      then Inl (IntegrityError ''booking.id'')
      else if \<exists>b \<in> set (bookings db). booking_slot_id b = booking_slot_id booking
                                      \<and> booking_email b = booking_email booking
      then Inl (IntegrityError ''uix_slot_email'')
      else Inr (db\<lparr>bookings := bookings db @ [booking]\<rparr>))"

text \<open>
  \<^verbatim>\<open>create_booking\<close> builds a CONFIRMED booking and commits it. The identifier is the
  \<^verbatim>\<open>uuid4\<close> drawn by the model's default factory and the timestamp is \<^verbatim>\<open>datetime.utcnow()\<close>;
  both come from the environment and are arguments here.
\<close>

definition new_booking :: "ident \<Rightarrow> string \<Rightarrow> string \<Rightarrow> ident \<Rightarrow> datetime \<Rightarrow> Booking" where
  "new_booking sid name email new_id now =
     \<lparr>booking_id = new_id, booking_slot_id = sid, booking_name = name,
      booking_email = email, booking_status = CONFIRMED, booked_at = now\<rparr>"

definition create_booking ::
  "session \<Rightarrow> ident \<Rightarrow> string \<Rightarrow> string \<Rightarrow> ident \<Rightarrow> datetime \<Rightarrow> Booking outcome" where
  "create_booking db sid name email new_id now =
     (let booking = new_booking sid name email new_id now
      in case insert_booking db booking of
           Inl e \<Rightarrow> (Inl e, db)
         | Inr db' \<Rightarrow> (Inr booking, db'))"



text \<open>
  \<^verbatim>\<open>cancel_booking\<close> of the CRUD layer (imported by the service as
  \<^verbatim>\<open>crud_cancel_booking\<close>): an already cancelled booking is returned as it is; otherwise the
  booking's row is updated to CANCELLED and the refreshed booking is returned. The booking
  is a persistent object, so the commit is an UPDATE of the row with its primary key.
\<close>

definition cancel_row :: "ident \<Rightarrow> Booking \<Rightarrow> Booking" where
  "cancel_row bid b = (if booking_id b = bid then b\<lparr>booking_status := CANCELLED\<rparr> else b)"

definition crud_cancel_booking :: "session \<Rightarrow> Booking \<Rightarrow> Booking \<times> session" where
  "crud_cancel_booking db booking =
     (if booking_status booking = CANCELLED then (booking, db)
      else (booking\<lparr>booking_status := CANCELLED\<rparr>,
            db\<lparr>bookings := map (cancel_row (booking_id booking)) (bookings db)\<rparr>))"

section \<open>Booking service\<close>

text \<open>
  \<^verbatim>\<open>_broadcast_slot_update\<close> publishes the slot's \<^verbatim>\<open>remaining\<close> and \<^verbatim>\<open>is_full\<close>, read from
  the committed rows, on the channel \<^verbatim>\<open>event:{event_id}\<close>.
\<close>

definition broadcast_slot_update :: "session \<Rightarrow> Slot \<Rightarrow> session" where
  "broadcast_slot_update db slot =
     db\<lparr>outbox := outbox db @
        [RedisPublish (''event:'' @ slot_event_id slot) (slot_id slot)
                      (remaining db slot) (is_full db slot)]\<rparr>"

definition send_booking_email_delay :: "session \<Rightarrow> ident \<Rightarrow> session" where
  "send_booking_email_delay db bid = db\<lparr>outbox := outbox db @ [SendBookingEmail bid]\<rparr>"

text \<open>\<^verbatim>\<open>make_booking\<close>: the two business rules, the insert, then the side effects.\<close>

definition make_booking ::
  "session \<Rightarrow> Slot \<Rightarrow> string \<Rightarrow> string \<Rightarrow> ident \<Rightarrow> datetime \<Rightarrow> Booking outcome" where
  "make_booking db slot name email new_id now =
     (if booking_exists db (slot_id slot) email
      then (Inl (HTTPException 409 ''You have already booked this slot.''), db)
      else if booking_count db (slot_id slot) \<ge> max_bookings slot
      then (Inl (HTTPException 409 ''Slot is already full.''), db)
      else case create_booking db (slot_id slot) name email new_id now of
             (Inl e, db') \<Rightarrow> (Inl e, db')
           | (Inr booking, db') \<Rightarrow>
               (Inr booking,
                broadcast_slot_update (send_booking_email_delay db' (booking_id booking)) slot))"

text \<open>
  The errors of the specification's vocabulary are these HTTP exceptions.
\<close>

abbreviation DuplicateBooking :: error where
  "DuplicateBooking \<equiv> HTTPException 409 ''You have already booked this slot.''"

abbreviation SlotFull :: error where
  "SlotFull \<equiv> HTTPException 409 ''Slot is already full.''"


text \<open>
  \<^verbatim>\<open>booking.slot\<close>, the relationship on \<^verbatim>\<open>slot_id\<close>; reading an attribute of a missing slot
  raises \<^verbatim>\<open>AttributeError\<close>.
\<close>

definition booking_slot :: "session \<Rightarrow> Booking \<Rightarrow> Slot option" where
  "booking_slot db booking = find (\<lambda>s. slot_id s = booking_slot_id booking) (slots db)"

text \<open>
  \<^verbatim>\<open>cancel_booking\<close> of the service layer: a cancelled booking
  is refused; otherwise the CRUD helper commits the cancellation and the slot is rebroadcast.
\<close>

definition cancel_booking :: "session \<Rightarrow> Booking \<Rightarrow> Booking outcome" where
  "cancel_booking db booking =
     (if booking_status booking = CANCELLED
      then (Inl (HTTPException 400 ''Booking already cancelled.''), db)
      else let (booking', db') = crud_cancel_booking db booking
           in case booking_slot db' booking' of
                None \<Rightarrow> (Inl (AttributeError ''id''), db')
              | Some slot \<Rightarrow> (Inr booking', broadcast_slot_update db' slot))"

section \<open>Request sequences\<close>

text \<open>
  The slot and the booking that the service functions receive are persistent objects, the
  rows of the session with their primary keys: \<^verbatim>\<open>session.get(Slot, slot_id)\<close>, as in
  \<^verbatim>\<open>api/v1/bookings.py\<close>, and likewise for a booking.
\<close>

definition session_get_slot :: "session \<Rightarrow> ident \<Rightarrow> Slot option" where
  "session_get_slot db sid = find (\<lambda>s. slot_id s = sid) (slots db)"

definition session_get_booking :: "session \<Rightarrow> ident \<Rightarrow> Booking option" where
  "session_get_booking db bid = find (\<lambda>b. booking_id b = bid) (bookings db)"

text \<open>
  A request is a reservation of a stored slot through \<^verbatim>\<open>make_booking\<close>, a cancellation of a
  stored booking through the service's \<^verbatim>\<open>cancel_booking\<close>, or a cancellation of a stored
  booking through the CRUD helper alone. A request that names no stored row calls nothing.
  A failed request leaves what it committed; the next request runs on that session.
\<close>

datatype request =
  Reserve ident string string ident datetime
  | Cancel ident
  | CancelPure ident

fun handle :: "session \<Rightarrow> request \<Rightarrow> session" where
  "handle db (Reserve sid name email new_id now) =
     (case session_get_slot db sid of
        None \<Rightarrow> db
      | Some slot \<Rightarrow> snd (make_booking db slot name email new_id now))"
| "handle db (Cancel bid) =
     (case session_get_booking db bid of
        None \<Rightarrow> db
      | Some booking \<Rightarrow> snd (cancel_booking db booking))"
| "handle db (CancelPure bid) =
     (case session_get_booking db bid of
        None \<Rightarrow> db
      | Some booking \<Rightarrow> snd (crud_cancel_booking db booking))"

definition run :: "session \<Rightarrow> request list \<Rightarrow> session" where
  "run db reqs = foldl handle db reqs"

section \<open>Double-precision arithmetic\<close>

text \<open>
  A Python \<^verbatim>\<open>float\<close>, and a REAL of the store, is an IEEE 754 binary64 number. A finite one
  is held as the rational it denotes; the sign of a zero is not kept, since no operation
  modelled here tells the two zeros apart (a division by either raises). Every operation
  computes the exact result and rounds it to the nearest representable number, a tie to
  the one with the even significand.

  \<^verbatim>\<open>round\<close> of Python goes to the nearest integer, a tie to the even one.
\<close>

datatype pyfloat = Finite rat | PosInf | NegInf | NaN

definition py_round :: "rat \<Rightarrow> int" where
  "py_round x =
     (let f = \<lfloor>x\<rfloor>; d = x - of_int f
      in if d < 1 / 2 then f
         else if d > 1 / 2 then f + 1
         else if even f then f else f + 1)"

definition pow2 :: "int \<Rightarrow> rat" where
  "pow2 e = (if e \<ge> 0 then 2 ^ nat e else 1 / 2 ^ nat (- e))"

text \<open>The binary exponent of a positive rational \<open>x\<close>: the \<open>e\<close> with \<open>2^e \<le> x < 2^(e+1)\<close>.\<close>

function float_exponent :: "rat \<Rightarrow> int" where
  "float_exponent x =
     (if x \<le> 0 then 0
      else if 2 \<le> x then float_exponent (x / 2) + 1
      else if x < 1 then float_exponent (2 * x) - 1
      else 0)"
  by pat_completeness auto
termination
proof (relation "measure (\<lambda>x. nat \<lfloor>x\<rfloor> + 2 * nat \<lceil>1 / x\<rceil>)")
  show "wf (measure (\<lambda>x::rat. nat \<lfloor>x\<rfloor> + 2 * nat \<lceil>1 / x\<rceil>))" by simp
next
  fix x :: rat
  assume "\<not> x \<le> 0" and x: "2 \<le> x"
  have "\<lfloor>x / 2\<rfloor> < \<lfloor>x\<rfloor>" using x by linarith
  moreover have "\<lceil>1 / x\<rceil> = 1" using x by (intro ceiling_unique) (simp_all add: field_simps)
  moreover have "\<lceil>1 / (x / 2)\<rceil> = 1" using x by (intro ceiling_unique) (simp_all add: field_simps)
  moreover have "0 \<le> \<lfloor>x / 2\<rfloor>" using x by simp
  ultimately show "(x / 2, x) \<in> measure (\<lambda>x. nat \<lfloor>x\<rfloor> + 2 * nat \<lceil>1 / x\<rceil>)"
    using x by simp
next
  fix x :: rat
  assume pos: "\<not> x \<le> 0" and "\<not> 2 \<le> x" and x: "x < 1"
  then have x0: "0 < x" by simp
  have fl0: "\<lfloor>x\<rfloor> = 0" using x0 x by (intro floor_unique) simp_all
  show "(2 * x, x) \<in> measure (\<lambda>x. nat \<lfloor>x\<rfloor> + 2 * nat \<lceil>1 / x\<rceil>)"
  proof (cases "x < 1 / 2")
    case True
    then have f2: "\<lfloor>2 * x\<rfloor> = 0" using x0 by (intro floor_unique) simp_all
    have "1 / (2 * x) \<le> 1 / x - 1" using True x0 by (simp add: field_simps)
    then have "\<lceil>1 / (2 * x)\<rceil> \<le> \<lceil>1 / x - 1\<rceil>" by (rule ceiling_mono)
    then have "\<lceil>1 / (2 * x)\<rceil> < \<lceil>1 / x\<rceil>" by simp
    moreover have "0 < \<lceil>1 / (2 * x)\<rceil>" using x0 by simp
    ultimately show ?thesis using fl0 f2 by simp
  next
    case False
    then have f2: "\<lfloor>2 * x\<rfloor> = 1" using x by (intro floor_unique) simp_all
    have c1: "\<lceil>1 / (2 * x)\<rceil> = 1" using False x0 by (intro ceiling_unique) (simp_all add: field_simps)
    have c2: "\<lceil>1 / x\<rceil> = 2" using False x x0 by (intro ceiling_unique) (simp_all add: field_simps)
    show ?thesis using fl0 f2 c1 c2 by simp
  qed
qed

declare float_exponent.simps [simp del]

text \<open>
  Rounding to the 53-bit significand: the spacing of the representable numbers around
  \<open>x\<close> is \<open>2^(e - 52)\<close>, for \<open>e\<close> the exponent of \<open>x\<close> and at least -1022 (below, the numbers are
  subnormal and evenly spaced). The exponent is not bounded above here; a value that
  rounds to \<open>2^1024\<close> or beyond overflows.
\<close>

definition round_double :: "rat \<Rightarrow> rat" where
  "round_double x =
     (if x = 0 then 0
      else let e = max (float_exponent \<bar>x\<bar>) (- 1022);
               ulp = pow2 (e - 52)
           in of_int (py_round (x / ulp)) * ulp)"

definition double_of :: "rat \<Rightarrow> pyfloat" where
  "double_of x =
     (let r = round_double x
      in if 2 ^ 1024 \<le> r then PosInf else if r \<le> - (2 ^ 1024) then NegInf else Finite r)"

text \<open>
  \<^verbatim>\<open>a / b\<close> on floats: a zero divisor raises \<^verbatim>\<open>ZeroDivisionError\<close>, whatever the dividend;
  otherwise the quotient is the IEEE one, and an overflow gives an infinity.
\<close>

fun float_div :: "pyfloat \<Rightarrow> pyfloat \<Rightarrow> pyfloat" where
  "float_div (Finite x) (Finite y) = double_of (x / y)"
| "float_div (Finite x) PosInf = Finite 0"
| "float_div (Finite x) NegInf = Finite 0"
| "float_div PosInf (Finite y) = (if 0 < y then PosInf else NegInf)"
| "float_div NegInf (Finite y) = (if 0 < y then NegInf else PosInf)"
| "float_div _ _ = NaN"

definition float_truediv :: "pyfloat \<Rightarrow> pyfloat \<Rightarrow> error + pyfloat" where
  "float_truediv a b = (if b = Finite 0 then Inl ZeroDivisionError else Inr (float_div a b))"

text \<open>
  \<^verbatim>\<open>n * b\<close> for an \<^verbatim>\<open>int\<close> and a \<^verbatim>\<open>float\<close>: the integer is converted to the nearest float, which
  raises \<^verbatim>\<open>OverflowError\<close> when it is out of range; the product is the IEEE one.
\<close>

definition int_to_float :: "int \<Rightarrow> error + pyfloat" where
  "int_to_float n =
     (case double_of (of_int n) of
        Finite r \<Rightarrow> Inr (Finite r)
      | _ \<Rightarrow> Inl (OverflowError ''int too large to convert to float''))"

fun float_mul :: "pyfloat \<Rightarrow> pyfloat \<Rightarrow> pyfloat" where
  "float_mul (Finite x) (Finite y) = double_of (x * y)"
| "float_mul (Finite x) PosInf = (if x = 0 then NaN else if 0 < x then PosInf else NegInf)"
| "float_mul (Finite x) NegInf = (if x = 0 then NaN else if 0 < x then NegInf else PosInf)"
| "float_mul PosInf (Finite y) = (if y = 0 then NaN else if 0 < y then PosInf else NegInf)"
| "float_mul NegInf (Finite y) = (if y = 0 then NaN else if 0 < y then NegInf else PosInf)"
| "float_mul PosInf PosInf = PosInf"
| "float_mul PosInf NegInf = NegInf"
| "float_mul NegInf PosInf = NegInf"
| "float_mul NegInf NegInf = PosInf"
| "float_mul _ _ = NaN"

definition int_mul_float :: "int \<Rightarrow> pyfloat \<Rightarrow> error + pyfloat" where
  "int_mul_float n b =
     (case int_to_float n of
        Inl e \<Rightarrow> Inl e
      | Inr a \<Rightarrow> Inr (float_mul a b))"

text \<open>\<^verbatim>\<open>round(x)\<close> of a float: an infinity and a NaN have no integer.\<close>

fun float_round :: "pyfloat \<Rightarrow> error + int" where
  "float_round (Finite x) = Inr (py_round x)"
| "float_round NaN = Inl (ValueError ''cannot convert float NaN to integer'')"
| "float_round PosInf = Inl (OverflowError ''cannot convert float infinity to integer'')"
| "float_round NegInf = Inl (OverflowError ''cannot convert float infinity to integer'')"
section \<open>Rating aggregator\<close>

text \<open>
  SQL's \<^verbatim>\<open>avg\<close> and \<^verbatim>\<open>count\<close> over the selected rows: the average of no rows is NULL. The
  store of the default configuration and of the tests is SQLite, whose \<^verbatim>\<open>avg\<close> of integers
  divides their sum by their number, both taken as doubles (a sum beyond the 64-bit integers
  of the store is not modelled). Python reads the result as a \<^verbatim>\<open>float\<close> and writes it into
  the float column \<^verbatim>\<open>rating_avg\<close>; the field holds the rational that the stored double
  denotes.
\<close>

definition func_avg :: "int list \<Rightarrow> rat option" where
  "func_avg xs =
     (if xs = [] then None
      else Some (round_double (round_double (of_int (sum_list xs))
                               / round_double (of_int (int (length xs))))))"

definition func_count :: "'a list \<Rightarrow> int" where
  "func_count xs = int (length xs)"

text \<open>
  \<^verbatim>\<open>recompute_event_rating\<close> selects the average rating and the number of the reviews of the
  event and writes both into the event's row. The aggregate query has exactly one row, so
  \<^verbatim>\<open>first()\<close> returns it and the fallback \<^verbatim>\<open>(None, 0)\<close> is not taken.
\<close>

definition recompute_event_rating :: "session \<Rightarrow> ident \<Rightarrow> session" where
  "recompute_event_rating db eid =
     (let rows = filter (\<lambda>r. review_event_id r = eid) (reviews db);
          avg = func_avg (map rating rows);
          cnt = func_count (map review_id rows)
      in db\<lparr>events := map (\<lambda>e. if event_id e = eid
                                then e\<lparr>rating_avg := avg, rating_count := cnt\<rparr> else e)
                          (events db)\<rparr>)"

section \<open>Review CRUD helpers\<close>

definition review_exists :: "session \<Rightarrow> ident \<Rightarrow> bool" where
  "review_exists db bid \<longleftrightarrow>
     int (length (filter (\<lambda>r. review_booking_id r = bid) (reviews db))) > 0"

text \<open>
  The review table has the primary key \<^verbatim>\<open>id\<close> and no other uniqueness constraint.
\<close>

definition insert_review :: "session \<Rightarrow> Review \<Rightarrow> error + session" where
  "insert_review db review =
     (if review_id review \<in> set (map review_id (reviews db))
      then Inl (IntegrityError ''review.id'')
      else Inr (db\<lparr>reviews := reviews db @ [review]\<rparr>))"

text \<open>
  \<^verbatim>\<open>create_review\<close>: refuses a second review of the booking, commits the review, then
  recomputes the event's rating. Identifier and timestamp come from the environment.
\<close>

definition create_review ::
  "session \<Rightarrow> ident \<Rightarrow> ident \<Rightarrow> int \<Rightarrow> string option \<Rightarrow> ident \<Rightarrow> datetime \<Rightarrow> Review outcome"
  where
  "create_review db eid bid stars cmt new_id now =
     (if review_exists db bid
      then (Inl (ValueError ''This booking already has a review.''), db)
      else let review = \<lparr>review_id = new_id, review_event_id = eid, review_booking_id = bid,
                          rating = stars, comment = cmt, review_created_at = now\<rparr>
           in case insert_review db review of
                Inl e \<Rightarrow> (Inl e, db)
              | Inr db' \<Rightarrow> (Inr review, recompute_event_rating db' eid))"

text \<open>
  \<^verbatim>\<open>update_review\<close> sets the attributes whose value is not \<^verbatim>\<open>None\<close>; its callers pass the
  keywords \<^verbatim>\<open>rating\<close> and \<^verbatim>\<open>comment\<close>. The review is a persistent object: the commit
  updates the row with its primary key. Then the event's rating is recomputed.
\<close>

definition update_review ::
  "session \<Rightarrow> Review \<Rightarrow> int option \<Rightarrow> string option \<Rightarrow> Review \<times> session" where
  "update_review db review stars cmt =
     (let review1 = (case stars of None \<Rightarrow> review | Some v \<Rightarrow> review\<lparr>rating := v\<rparr>);
          review2 = (case cmt of None \<Rightarrow> review1 | Some v \<Rightarrow> review1\<lparr>comment := Some v\<rparr>);
          db' = db\<lparr>reviews := map (\<lambda>r. if review_id r = review_id review2 then review2 else r)
                                   (reviews db)\<rparr>
      in (review2, recompute_event_rating db' (review_event_id review2)))"

text \<open>\<^verbatim>\<open>delete_review\<close> deletes the review's row, then recomputes the event's rating.\<close>

definition delete_review :: "session \<Rightarrow> Review \<Rightarrow> session" where
  "delete_review db review =
     (let eid = review_event_id review;
          db' = db\<lparr>reviews := filter (\<lambda>r. review_id r \<noteq> review_id review) (reviews db)\<rparr>
      in recompute_event_rating db' eid)"

section \<open>Review service\<close>

text \<open>
  \<^verbatim>\<open>add_review\<close>: the booking must be CONFIRMED and must not have a review; the review is
  created for the event of the booking's slot. The functions of \<^verbatim>\<open>services/review.py\<close> are
  modelled as they are called; the two statements that precede the module's
  \<^verbatim>\<open>from __future__\<close> import belong to no function. Loading the module is the subject of
  the section on imports below.
\<close>

definition add_review ::
  "session \<Rightarrow> Booking \<Rightarrow> int \<Rightarrow> string option \<Rightarrow> ident \<Rightarrow> datetime \<Rightarrow> Review outcome" where
  "add_review db booking stars cmt new_id now =
     (if booking_status booking \<noteq> CONFIRMED
      then (Inl (HTTPException 400 ''Cannot review an unconfirmed booking.''), db)
      else if review_exists db (booking_id booking)
      then (Inl (HTTPException 409 ''This booking already has a review.''), db)
      else case booking_slot db booking of
             None \<Rightarrow> (Inl (AttributeError ''event_id''), db)
           | Some slot \<Rightarrow>
               create_review db (slot_event_id slot) (booking_id booking) stars cmt new_id now)"

abbreviation BookingNotConfirmed :: error where
  "BookingNotConfirmed \<equiv> HTTPException 400 ''Cannot review an unconfirmed booking.''"

abbreviation ReviewAlreadyExists :: error where
  "ReviewAlreadyExists \<equiv> HTTPException 409 ''This booking already has a review.''"

definition edit_review ::
  "session \<Rightarrow> Review \<Rightarrow> int option \<Rightarrow> string option \<Rightarrow> Review outcome" where
  "edit_review db review stars cmt =
     (if stars = None \<and> cmt = None
      then (Inl (HTTPException 400 ''No changes supplied.''), db)
      else let (review', db') = update_review db review stars cmt in (Inr review', db'))"

definition remove_review :: "session \<Rightarrow> Review \<Rightarrow> session" where
  "remove_review db review = delete_review db review"

section \<open>The rating aggregate, as specified\<close>

text \<open>
  The reviews currently linked to an event, and the arithmetic mean of a list of ratings.
  \<^verbatim>\<open>ratings_in_range\<close>: the sum of the linked ratings and their number are at most \<open>2^53\<close>
  in magnitude, so that both are doubles.
\<close>

definition linked_reviews :: "session \<Rightarrow> ident \<Rightarrow> Review list" where
  "linked_reviews db eid = filter (\<lambda>r. review_event_id r = eid) (reviews db)"

definition arithmetic_mean :: "int list \<Rightarrow> rat" where
  "arithmetic_mean xs = of_int (sum_list xs) / of_int (int (length xs))"

definition ratings_in_range :: "session \<Rightarrow> ident \<Rightarrow> bool" where
  "ratings_in_range db eid \<longleftrightarrow>
     \<bar>sum_list (map rating (linked_reviews db eid))\<bar> \<le> 2 ^ 53 \<and>
     int (length (linked_reviews db eid)) \<le> 2 ^ 53"

text \<open>
  The statement that the event's stored aggregate is current: \<^verbatim>\<open>rating_count\<close> is the number
  of the linked reviews; \<^verbatim>\<open>rating_avg\<close> is undefined exactly when there is none; and, the
  ratings being in range, \<^verbatim>\<open>rating_avg\<close> is the double nearest to the arithmetic mean of their
  ratings, which is within the fraction \<open>2^-53\<close> of the mean.
\<close>

definition aggregates_current :: "session \<Rightarrow> ident \<Rightarrow> bool" where
  "aggregates_current db eid \<longleftrightarrow>
     (\<forall>e \<in> set (events db). event_id e = eid \<longrightarrow>
        rating_count e = int (length (linked_reviews db eid)) \<and>
        (rating_avg e = None \<longleftrightarrow> linked_reviews db eid = []) \<and>
        (linked_reviews db eid \<noteq> [] \<and> ratings_in_range db eid \<longrightarrow>
           rating_avg e
             = Some (round_double (arithmetic_mean (map rating (linked_reviews db eid)))) \<and>
           \<bar>round_double (arithmetic_mean (map rating (linked_reviews db eid)))
              - arithmetic_mean (map rating (linked_reviews db eid))\<bar>
             \<le> \<bar>arithmetic_mean (map rating (linked_reviews db eid))\<bar> / 2 ^ 53))"

section \<open>Currency converter\<close>

text \<open>
  \<^verbatim>\<open>convert_minor\<close> of \<^verbatim>\<open>services/fx.py\<close>. The rates are floats. The quotient of the two rates
  and its product with the amount are float operations, and \<^verbatim>\<open>round\<close> takes the product to
  an integer. A missing key raises \<^verbatim>\<open>KeyError\<close>, which the function turns into
  \<^verbatim>\<open>ValueError("Missing FX rate for <key>")\<close>; the target rate is read first. The
  exceptions of the arithmetic are not caught: \<^verbatim>\<open>ZeroDivisionError\<close> for a zero source rate,
  \<^verbatim>\<open>OverflowError\<close> for an amount beyond the floats or an infinite product, \<^verbatim>\<open>ValueError\<close>
  for a product that is not a number.
\<close>

definition convert_minor ::
  "int \<Rightarrow> string \<Rightarrow> string \<Rightarrow> (string \<rightharpoonup> pyfloat) \<Rightarrow> error + int" where
  "convert_minor amount_minor from_currency to_currency rates =
     (if from_currency = to_currency then Inr amount_minor
      else case rates to_currency of
             None \<Rightarrow> Inl (ValueError (''Missing FX rate for '' @ to_currency))
           | Some rate_to \<Rightarrow>
               (case rates from_currency of
                  None \<Rightarrow> Inl (ValueError (''Missing FX rate for '' @ from_currency))
                | Some rate_from \<Rightarrow>
                    (case float_truediv rate_to rate_from of
                       Inl e \<Rightarrow> Inl e
                     | Inr base_ratio \<Rightarrow>
                         (case int_mul_float amount_minor base_ratio of
                            Inl e \<Rightarrow> Inl e
                          | Inr product \<Rightarrow> float_round product))))"

abbreviation MissingRate :: "string \<Rightarrow> error" where
  "MissingRate code \<equiv> ValueError (''Missing FX rate for '' @ code)"

section \<open>Modules, imports and name resolution\<close>

text \<open>
  The top level of a module, as far as loading it and binding names goes: a string
  literal as a statement (the docstring when it comes first), a \<^verbatim>\<open>from __future__\<close> import,
  an import with the names it binds, a definition of a function or class, an assignment,
  and any other expression statement. The imports inside a \<^verbatim>\<open>try\<close> statement are listed in
  its place.
\<close>

datatype statement =
  StringExpr
  | FutureImport "string list"
  | ImportFrom string "string list"
  | Import string
  | Def string
  | Assign string
  | Expr

fun bound_names :: "statement \<Rightarrow> string list" where
  "bound_names (FutureImport ns) = ns"
| "bound_names (ImportFrom m ns) = ns"
| "bound_names (Import m) = [takeWhile (\<lambda>c. c \<noteq> CHR ''.'') m]"
| "bound_names (Def n) = [n]"
| "bound_names (Assign n) = [n]"
| "bound_names _ = []"

definition module_globals :: "statement list \<Rightarrow> string list" where
  "module_globals body = concat (map bound_names body)"

text \<open>
  The compiler accepts a \<^verbatim>\<open>from __future__\<close> import only at the beginning of the file: after
  the docstring, if there is one, and other such imports. Elsewhere it is a
  \<^verbatim>\<open>SyntaxError\<close>, raised when the module is compiled, before any of its statements runs.
\<close>

fun is_future :: "statement \<Rightarrow> bool" where
  "is_future (FutureImport ns) = True"
| "is_future _ = False"

fun skip_docstring :: "statement list \<Rightarrow> statement list" where
  "skip_docstring (StringExpr # body) = body"
| "skip_docstring body = body"

definition compiles :: "statement list \<Rightarrow> bool" where
  "compiles body = (filter is_future (dropWhile is_future (skip_docstring body)) = [])"

text \<open>
  Loading a module of the package \<^verbatim>\<open>app.services\<close>: the file is compiled and its statements
  bind the names of the module. The modules that these files import lie outside the
  package (the standard library, the installed distributions, \<^verbatim>\<open>app.core\<close>, \<^verbatim>\<open>app.models\<close>,
  \<^verbatim>\<open>app.schemas\<close>, \<^verbatim>\<open>app.crud\<close>) and are taken as importable.
\<close>

definition load_module :: "statement list \<Rightarrow> error + string list" where
  "load_module body =
     (if compiles body then Inr (module_globals body)
      else Inl (SyntaxError ''from __future__ imports must occur at the beginning of the file''))"

text \<open>
  A package is the top level of its \<^verbatim>\<open>__init__.py\<close> and its modules by name. Importing the
  package runs \<^verbatim>\<open>__init__.py\<close>: each relative import loads the named module and takes the
  listed names from it, and the first exception ends the import. A package whose import
  failed is not kept: the next import of it runs \<^verbatim>\<open>__init__.py\<close> again.
\<close>

record package =
  init :: "statement list"
  modules :: "(string \<times> statement list) list"

definition import_names :: "package \<Rightarrow> string \<Rightarrow> string list \<Rightarrow> error + string list" where
  "import_names pkg m ns =
     (case map_of (modules pkg) m of
        None \<Rightarrow> Inl (ImportError (''No module named '' @ m))
      | Some body \<Rightarrow>
          (case load_module body of
             Inl e \<Rightarrow> Inl e
           | Inr globals \<Rightarrow>
               (case filter (\<lambda>n. n \<notin> set globals) ns of
                  [] \<Rightarrow> Inr ns
                | n # _ \<Rightarrow> Inl (ImportError (''cannot import name '' @ n)))))"

fun run_init :: "package \<Rightarrow> statement list \<Rightarrow> error + unit" where
  "run_init pkg [] = Inr ()"
| "run_init pkg (ImportFrom m ns # body) =
     (if take 1 m = ''.''
      then case import_names pkg (drop 1 m) ns of
             Inl e \<Rightarrow> Inl e
           | Inr _ \<Rightarrow> run_init pkg body
      else run_init pkg body)"
| "run_init pkg (s # body) = run_init pkg body"

definition import_package :: "package \<Rightarrow> error + unit" where
  "import_package pkg =
     (if compiles (init pkg) then run_init pkg (init pkg)
      else Inl (SyntaxError ''from __future__ imports must occur at the beginning of the file''))"

text \<open>\<^verbatim>\<open>from <package>.<m> import <names>\<close>: the package is imported first, then the module.\<close>

definition import_from :: "package \<Rightarrow> string \<Rightarrow> string list \<Rightarrow> error + string list" where
  "import_from pkg m ns =
     (case import_package pkg of
        Inl e \<Rightarrow> Inl e
      | Inr _ \<Rightarrow> import_names pkg m ns)"

text \<open>The files of \<^verbatim>\<open>app/services\<close>, and the top level of \<^verbatim>\<open>crud/events.py\<close>.\<close>

definition services_init :: "statement list" where
  "services_init =
     [ImportFrom ''.email'' [''send_email_plain''],
      ImportFrom ''.calendar''
        [''generate_ics_bytes'', ''write_ics_to_storage'', ''google_calendar_link''],
      ImportFrom ''.review'' [''add_review'', ''edit_review'', ''remove_review'', ''event_reviews''],
      ImportFrom ''.fx'' [''get_rates'', ''convert_minor'']]"

definition services_email :: "statement list" where
  "services_email =
     [StringExpr, FutureImport [''annotations''],
      Import ''logging'', Import ''textwrap'',
      ImportFrom ''typing'' [''Iterable'', ''List'', ''Sequence''],
      Import ''httpx'',
      ImportFrom ''app.core.config'' [''settings''],
      Import ''boto3'', ImportFrom ''botocore.exceptions'' [''BotoCoreError'', ''ClientError''],
      Assign ''log'',
      Def ''send_email_plain'', Def ''_send_console'', Def ''_send_ses'', Def ''_send_sendgrid'']"

definition services_calendar :: "statement list" where
  "services_calendar =
     [StringExpr, FutureImport [''annotations''],
      Import ''logging'', Import ''tempfile'', Import ''urllib.parse'',
      ImportFrom ''datetime'' [''datetime'', ''timedelta'', ''timezone''],
      ImportFrom ''pathlib'' [''Path''],
      ImportFrom ''typing'' [''Literal'', ''Tuple''],
      ImportFrom ''uuid'' [''uuid4''],
      ImportFrom ''icalendar'' [''Calendar'', ''ICalEvent''],
      ImportFrom ''app.core.config'' [''settings''],
      ImportFrom ''app.models.booking'' [''Booking''],
      Assign ''log'',
      Def ''generate_ics_bytes'', Def ''write_ics_to_storage'', Def ''google_calendar_link'',
      Def ''handle_google_webhook'', Def ''upload_ics_and_return_url'']"

text \<open>
  \<^verbatim>\<open>services/review.py\<close> begins with an import and a call, on lines 1 and 2; its
  \<^verbatim>\<open>from __future__\<close> import is on line 3.
\<close>

definition services_review :: "statement list" where
  "services_review =
     [ImportFrom ''app.crud'' [''recompute_event_rating''],
      Expr,
      FutureImport [''annotations''],
      StringExpr,
      ImportFrom ''datetime'' [''datetime''],
      ImportFrom ''typing'' [''Tuple'', ''List'', ''Optional''],
      ImportFrom ''fastapi'' [''HTTPException'', ''status''],
      ImportFrom ''sqlmodel'' [''Session''],
      ImportFrom ''app.crud''
        [''review_exists'', ''crud_create_review'', ''crud_list_reviews'',
         ''crud_delete_review'', ''crud_update_review''],
      ImportFrom ''app.models.booking'' [''Booking'', ''BookingStatus''],
      ImportFrom ''app.models.review'' [''Review''],
      Def ''add_review'', Def ''event_reviews'', Def ''edit_review'', Def ''remove_review'']"

definition services_fx :: "statement list" where
  "services_fx =
     [FutureImport [''annotations''], StringExpr,
      Import ''json'', Import ''logging'',
      ImportFrom ''datetime'' [''timedelta''],
      ImportFrom ''typing'' [''Dict'', ''Mapping''],
      Import ''httpx'',
      ImportFrom ''app.core.config'' [''settings''],
      ImportFrom ''app.core.redis'' [''redis_conn''],
      Assign ''log'', Assign ''REDIS_KEY'',
      Def ''get_rates'', Def ''convert_minor'', Def ''_fetch_rates_remote'']"

definition services_search :: "statement list" where
  "services_search =
     [StringExpr, FutureImport [''annotations''],
      ImportFrom ''datetime'' [''datetime'', ''timedelta''],
      ImportFrom ''typing'' [''Optional''],
      ImportFrom ''sqlalchemy'' [''and_'', ''desc'', ''func'', ''or_'', ''select'', ''text''],
      ImportFrom ''sqlmodel'' [''Session''],
      ImportFrom ''app.models.booking'' [''Booking''],
      ImportFrom ''app.models.event'' [''Event''],
      ImportFrom ''app.models.slot'' [''Slot''],
      ImportFrom ''app.schemas.event'' [''EventFilter'', ''SortOption''],
      Def ''build_event_query'', Def ''_apply_sort'']"

definition app_services :: package where
  "app_services =
     \<lparr>init = services_init,
      modules = [(''email'', services_email), (''calendar'', services_calendar),
                 (''review'', services_review), (''fx'', services_fx),
                 (''search'', services_search)]\<rparr>"

definition crud_events :: "statement list" where
  "crud_events =
     [StringExpr, FutureImport [''annotations''],
      ImportFrom ''datetime'' [''datetime''],
      ImportFrom ''typing'' [''List'', ''Optional'', ''Sequence'', ''Tuple''],
      ImportFrom ''sqlalchemy'' [''and_'', ''desc'', ''func'', ''select'', ''text''],
      ImportFrom ''sqlalchemy.orm'' [''joinedload'', ''selectinload''],
      ImportFrom ''sqlmodel'' [''Session''],
      ImportFrom ''app.models.booking'' [''Booking''],
      ImportFrom ''app.models.event'' [''Event''],
      ImportFrom ''app.models.review'' [''Review''],
      ImportFrom ''app.models.slot'' [''Slot''],
      Def ''create_event'', Def ''get_event'', Def ''list_events'', Def ''update_event'',
      Def ''delete_event'', Def ''recompute_event_rating'']"

text \<open>The names of the module \<^verbatim>\<open>builtins\<close>.\<close>

definition python_builtins :: "string list" where
  "python_builtins =
     [''ArithmeticError'', ''AssertionError'', ''AttributeError'', ''BaseException'',
      ''BaseExceptionGroup'', ''BlockingIOError'', ''BrokenPipeError'', ''BufferError'',
      ''BytesWarning'', ''ChildProcessError'', ''ConnectionAbortedError'',
      ''ConnectionError'', ''ConnectionRefusedError'', ''ConnectionResetError'',
      ''DeprecationWarning'', ''EOFError'', ''Ellipsis'', ''EncodingWarning'',
      ''EnvironmentError'', ''Exception'', ''ExceptionGroup'', ''False'',
      ''FileExistsError'', ''FileNotFoundError'', ''FloatingPointError'', ''FutureWarning'',
      ''GeneratorExit'', ''IOError'', ''ImportError'', ''ImportWarning'',
      ''IndentationError'', ''IndexError'', ''InterruptedError'', ''IsADirectoryError'',
      ''KeyError'', ''KeyboardInterrupt'', ''LookupError'', ''MemoryError'',
      ''ModuleNotFoundError'', ''NameError'', ''None'', ''NotADirectoryError'',
      ''NotImplemented'', ''NotImplementedError'', ''OSError'', ''OverflowError'',
      ''PendingDeprecationWarning'', ''PermissionError'', ''ProcessLookupError'',
      ''RecursionError'', ''ReferenceError'', ''ResourceWarning'', ''RuntimeError'',
      ''RuntimeWarning'', ''StopAsyncIteration'', ''StopIteration'', ''SyntaxError'',
      ''SyntaxWarning'', ''SystemError'', ''SystemExit'', ''TabError'', ''TimeoutError'',
      ''True'', ''TypeError'', ''UnboundLocalError'', ''UnicodeDecodeError'',
      ''UnicodeEncodeError'', ''UnicodeError'', ''UnicodeTranslateError'',
      ''UnicodeWarning'', ''UserWarning'', ''ValueError'', ''Warning'',
      ''ZeroDivisionError'', ''__build_class__'', ''__debug__'', ''__doc__'', ''__import__'',
      ''__loader__'', ''__name__'', ''__package__'', ''__spec__'', ''abs'', ''aiter'',
      ''all'', ''anext'', ''any'', ''ascii'', ''bin'', ''bool'', ''breakpoint'',
      ''bytearray'', ''bytes'', ''callable'', ''chr'', ''classmethod'', ''compile'',
      ''complex'', ''copyright'', ''credits'', ''delattr'', ''dict'', ''dir'', ''divmod'',
      ''enumerate'', ''eval'', ''exec'', ''exit'', ''filter'', ''float'', ''format'',
      ''frozenset'', ''getattr'', ''globals'', ''hasattr'', ''hash'', ''help'', ''hex'',
      ''id'', ''input'', ''int'', ''isinstance'', ''issubclass'', ''iter'', ''len'',
      ''license'', ''list'', ''locals'', ''map'', ''max'', ''memoryview'', ''min'', ''next'',
      ''object'', ''oct'', ''open'', ''ord'', ''pow'', ''print'', ''property'', ''quit'',
      ''range'', ''repr'', ''reversed'', ''round'', ''set'', ''setattr'', ''slice'',
      ''sorted'', ''staticmethod'', ''str'', ''sum'', ''super'', ''tuple'', ''type'',
      ''vars'', ''zip'']"

text \<open>
  The body of a function, as far as names go: it reads names, binds local names, and may
  import. A name is looked up among the local names that are bound, then in the globals of
  the module, then among the builtins; when it is in none, the read raises \<^verbatim>\<open>NameError\<close>.
\<close>

datatype action =
  Load string
  | Store string
  | LocalImport string "string list"

fun run_body :: "package \<Rightarrow> string list \<Rightarrow> string list \<Rightarrow> action list \<Rightarrow> error + unit" where
  "run_body pkg locals globals [] = Inr ()"
| "run_body pkg locals globals (Load n # body) =
     (if n \<in> set locals \<or> n \<in> set globals \<or> n \<in> set python_builtins
      then run_body pkg locals globals body
      else Inl (NameError n))"
| "run_body pkg locals globals (Store n # body) = run_body pkg (n # locals) globals body"
| "run_body pkg locals globals (LocalImport m ns # body) =
     (case import_from pkg m ns of
        Inl e \<Rightarrow> Inl e
      | Inr bound \<Rightarrow> run_body pkg (bound @ locals) globals body)"

text \<open>
  \<^verbatim>\<open>list_events\<close> of \<^verbatim>\<open>crud/events.py\<close>, statement by statement, in the order of evaluation
  along the branch that \<^verbatim>\<open>sort\<close> selects: \<^verbatim>\<open>select(Event)\<close>; the local import of
  \<^verbatim>\<open>build_event_query\<close> from \<^verbatim>\<open>app.services.search\<close>; the call
  \<^verbatim>\<open>build_event_query(session, filters=EventFilter(...))\<close>; the \<^verbatim>\<open>match\<close> on \<^verbatim>\<open>sort\<close>; the count
  and the paginated query.
\<close>

definition list_events_body :: "string \<Rightarrow> action list" where
  "list_events_body sort_option =
     [Load ''select'', Load ''Event'', Store ''stmt'',
      LocalImport ''search'' [''build_event_query''],
      Load ''build_event_query'', Load ''session'', Load ''EventFilter'',
      Load ''page'', Load ''size'', Load ''search'', Load ''category'',
      Load ''price_min'', Load ''price_max'', Load ''sort'',
      Store ''stmt'', Store ''count_stmt'',
      Load ''sort'']
     @ (if sort_option = ''price''
        then [Load ''stmt'', Load ''Event'', Store ''stmt'']
        else if sort_option = ''rating''
        then [Load ''stmt'', Load ''Event'', Store ''stmt'']
        else if sort_option = ''popularity''
        then [Load ''datetime'', Load ''timedelta'', Store ''thirty_days_ago'',
              Load ''select'', Load ''Booking'', Load ''func'', Load ''Booking'',
              Load ''Booking'', Load ''thirty_days_ago'', Load ''Booking'', Load ''Booking'',
              Store ''popularity_sub'',
              Load ''stmt'', Load ''popularity_sub'', Load ''popularity_sub'', Load ''Slot'',
              Load ''popularity_sub'', Load ''Event'', Store ''stmt'']
        else [Load ''stmt'', Load ''Event'', Store ''stmt''])
     @ [Load ''session'', Load ''select'', Load ''func'', Load ''stmt'', Store ''total'',
        Load ''stmt'', Load ''selectinload'', Load ''Event'', Load ''page'', Load ''size'',
        Load ''size'', Store ''stmt'',
        Load ''session'', Load ''stmt'', Store ''events'',
        Load ''events'', Load ''total'']"

text \<open>
  A call of \<^verbatim>\<open>list_events\<close> binds its parameters and runs the body in the globals of
  \<^verbatim>\<open>crud/events.py\<close>, with the package \<^verbatim>\<open>app.services\<close> as given. The value \<open>Inr ()\<close> stands for
  a body that has run to its \<^verbatim>\<open>return\<close>; the values of the arguments other than \<^verbatim>\<open>sort\<close> take
  no part in what the body reads and imports.
\<close>

definition list_events_in ::
  "package \<Rightarrow> session \<Rightarrow> int \<Rightarrow> int \<Rightarrow> string option \<Rightarrow> string option \<Rightarrow> int option
   \<Rightarrow> int option \<Rightarrow> string \<Rightarrow> error + unit" where
  "list_events_in pkg db page page_size search category_filter price_min price_max sort_option =
     run_body pkg
       [''session'', ''page'', ''size'', ''search'', ''category'', ''price_min'', ''price_max'',
        ''sort'']
       (module_globals crud_events) (list_events_body sort_option)"

definition list_events ::
  "session \<Rightarrow> int \<Rightarrow> int \<Rightarrow> string option \<Rightarrow> string option \<Rightarrow> int option \<Rightarrow> int option
   \<Rightarrow> string \<Rightarrow> error + unit" where
  "list_events = list_events_in app_services"

text \<open>
  The package as it would be without the two statements that precede the \<^verbatim>\<open>from __future__\<close>
  import of \<^verbatim>\<open>services/review.py\<close>.
\<close>

definition repaired_services :: package where
  "repaired_services =
     app_services\<lparr>modules := [(''email'', services_email), (''calendar'', services_calendar),
                              (''review'', drop 2 services_review), (''fx'', services_fx),
                              (''search'', services_search)]\<rparr>"

text \<open>
  The global names that \<^verbatim>\<open>build_event_query\<close> and \<^verbatim>\<open>_apply_sort\<close> of \<^verbatim>\<open>services/search.py\<close>
  read, along the branches that the filters and the sort option select, and their lookup
  in the globals of a module.
\<close>

fun load_names :: "string list \<Rightarrow> string list \<Rightarrow> error + unit" where
  "load_names globals [] = Inr ()"
| "load_names globals (n # ns) =
     (if n \<in> set globals \<or> n \<in> set python_builtins then load_names globals ns
      else Inl (NameError n))"

definition apply_sort_reads :: "string \<Rightarrow> string list" where
  "apply_sort_reads option =
     [''isinstance'', ''str'']
     @ (if option = ''price'' then [''Event'']
        else if option = ''rating'' then [''Event'', ''Event'']
        else if option = ''popularity''
        then [''datetime'', ''timedelta'',
              ''select'', ''Slot'', ''func'', ''Booking'', ''Booking'', ''Booking'', ''Slot'',
              ''Booking'', ''Booking'', ''Slot'', ''Event'', ''Event'']
        else [''Event''])"

definition build_event_query_reads ::
  "string option \<Rightarrow> string option \<Rightarrow> int option \<Rightarrow> int option \<Rightarrow> string \<Rightarrow> string list" where
  "build_event_query_reads search category_filter price_min price_max sort_option =
     [''select'', ''Event'']
     @ (if search \<noteq> None \<and> search \<noteq> Some ''''
        then [''or_'', ''func'', ''Event'', ''func'', ''Event'', ''func'', ''Event''] else [])
     @ (if category_filter \<noteq> None \<and> category_filter \<noteq> Some '''' then [''Event''] else [])
     @ (if price_min \<noteq> None then [''Event''] else [])
     @ (if price_max \<noteq> None then [''Event''] else [])
     @ [''_apply_sort''] @ apply_sort_reads sort_option
     @ [''select'', ''func'']"
section \<open>Event search: sorting\<close>

text \<open>
  \<^verbatim>\<open>ORDER BY\<close> is a stable insertion sort by the relation "sorts no later than", so rows
  that the sort keys do not separate keep the order in which the statement yields them
  (SQL leaves their order open). \<^verbatim>\<open>DESC NULLS LAST\<close> on a nullable key puts a larger value
  first and NULL after every value.
\<close>

fun order_insert :: "('a \<Rightarrow> 'a \<Rightarrow> bool) \<Rightarrow> 'a \<Rightarrow> 'a list \<Rightarrow> 'a list" where
  "order_insert le x [] = [x]"
| "order_insert le x (y # ys) = (if le x y then x # y # ys else y # order_insert le x ys)"

definition order_by :: "('a \<Rightarrow> 'a \<Rightarrow> bool) \<Rightarrow> 'a list \<Rightarrow> 'a list" where
  "order_by le rows = foldr (order_insert le) rows []"

fun desc_nullslast :: "('a::linorder) option \<Rightarrow> 'a option \<Rightarrow> bool" where
  "desc_nullslast (Some x) (Some y) = (x > y)"
| "desc_nullslast (Some x) None = True"
| "desc_nullslast None _ = False"

text \<open>\<^verbatim>\<open>timedelta(days=n)\<close> in microseconds.\<close>

definition timedelta_days :: "int \<Rightarrow> int" where
  "timedelta_days n = n * 86400000000"

text \<open>
  The subquery of the popularity sort: slots joined with their bookings, restricted to
  CONFIRMED bookings booked at or after \<^verbatim>\<open>thirty_days_ago\<close>, grouped by the slot's event,
  with the number of bookings of each group.
\<close>

definition popularity_sub :: "session \<Rightarrow> datetime \<Rightarrow> (ident \<times> int) list" where
  "popularity_sub db thirty_days_ago =
     (let joined = concat (map (\<lambda>s. map (\<lambda>b. (s, b))
                                (filter (\<lambda>b. booking_slot_id b = slot_id s) (bookings db)))
                              (slots db));
          kept = filter (\<lambda>(s, b). booking_status b = CONFIRMED \<and> booked_at b \<ge> thirty_days_ago)
                        joined;
          groups = remdups (map (\<lambda>(s, b). slot_event_id s) kept)
      in map (\<lambda>eid. (eid, int (length (filter (\<lambda>(s, b). slot_event_id s = eid) kept)))) groups)"

text \<open>
  The outer join of the statement's events with the subquery on the event id: an event
  without a row in the subquery is kept, with a NULL count.
\<close>

definition outer_join :: "Event list \<Rightarrow> (ident \<times> int) list \<Rightarrow> (Event \<times> int option) list" where
  "outer_join stmt sub =
     concat (map (\<lambda>e. case filter (\<lambda>(eid, pop_count). event_id e = eid) sub of
                         [] \<Rightarrow> [(e, None)]
                       | ms \<Rightarrow> map (\<lambda>(eid, pop_count). (e, Some pop_count)) ms)
                 stmt)"

text \<open>
  \<^verbatim>\<open>_apply_sort\<close> of \<^verbatim>\<open>services/search.py\<close>, on the events that the statement selects (those
  matching the filters), at the time \<^verbatim>\<open>now\<close> that \<^verbatim>\<open>datetime.utcnow()\<close> returns.
\<close>

definition apply_sort :: "session \<Rightarrow> datetime \<Rightarrow> Event list \<Rightarrow> string \<Rightarrow> Event list" where
  "apply_sort db now stmt option =
     (if option = ''price''
      then order_by (\<lambda>a b. price_minor a \<le> price_minor b) stmt
      else if option = ''rating''
      then order_by (\<lambda>a b. desc_nullslast (rating_avg a) (rating_avg b)
                             \<or> (rating_avg a = rating_avg b \<and> created_at a \<ge> created_at b)) stmt
      else if option = ''popularity''
      then let thirty_days_ago = now - timedelta_days 30;
               joined = outer_join stmt (popularity_sub db thirty_days_ago)
           in map fst (order_by (\<lambda>(a, p) (b, q). desc_nullslast p q
                                     \<or> (p = q \<and> created_at a \<ge> created_at b)) joined)
      else order_by (\<lambda>a b. created_at a \<ge> created_at b) stmt)"

text \<open>
  The popularity of an event as specified: the number of CONFIRMED bookings, on slots of
  the event, whose \<^verbatim>\<open>booked_at\<close> lies within the 30 days that end at the evaluation time.
\<close>

definition recent_confirmed_count :: "session \<Rightarrow> datetime \<Rightarrow> ident \<Rightarrow> int" where
  "recent_confirmed_count db now eid =
     int (length (filter
       (\<lambda>b. booking_status b = CONFIRMED
            \<and> now - timedelta_days 30 \<le> booked_at b \<and> booked_at b \<le> now
            \<and> eid \<in> set (map slot_event_id
                             (filter (\<lambda>s. slot_id s = booking_slot_id b) (slots db))))
       (bookings db)))"

text \<open>
  Auxiliary notions for the proofs: the count with the lower bound of the window only, as
  the subquery computes it; the count that the outer join attaches to an event; and the
  order of the joined rows.
\<close>

definition recent_count :: "session \<Rightarrow> datetime \<Rightarrow> ident \<Rightarrow> int" where
  "recent_count db t eid =
     int (length (filter
       (\<lambda>b. (booking_status b = CONFIRMED \<and> t \<le> booked_at b)
            \<and> eid \<in> set (map slot_event_id
                             (filter (\<lambda>s. slot_id s = booking_slot_id b) (slots db))))
       (bookings db)))"

definition pop_of :: "session \<Rightarrow> datetime \<Rightarrow> Event \<Rightarrow> int option" where
  "pop_of db t e = (if recent_count db t (event_id e) > 0
                    then Some (recent_count db t (event_id e)) else None)"

definition popularity_le :: "Event \<times> int option \<Rightarrow> Event \<times> int option \<Rightarrow> bool" where
  "popularity_le = (\<lambda>(a, p) (b, q). desc_nullslast p q \<or> (p = q \<and> created_at a \<ge> created_at b))"

section \<open>Uniqueness of (slot, email) and example sessions\<close>

text \<open>The storage constraint \<^verbatim>\<open>uix_slot_email\<close> as a property of the booking table.\<close>

definition unique_slot_email :: "session \<Rightarrow> bool" where
  "unique_slot_email db \<longleftrightarrow>
     distinct (map (\<lambda>b. (booking_slot_id b, booking_email b)) (bookings db))"

text \<open>
  A slot of capacity one, an empty session holding it, and the session in which the only
  booking of the slot has been cancelled.
\<close>

definition slot_A :: Slot where
  "slot_A = \<lparr>slot_id = ''s1'', slot_event_id = ''e1'', start_utc = 1000,
             max_bookings = 1, slot_created_at = 0\<rparr>"

definition db_open :: session where
  "db_open = \<lparr>events = [], slots = [slot_A], bookings = [], reviews = [], outbox = []\<rparr>"

definition booking_ann :: Booking where
  "booking_ann = new_booking ''s1'' ''Ann'' ''ann@example.org'' ''b1'' 10"

definition db_booked :: session where
  "db_booked = db_open\<lparr>bookings := [booking_ann]\<rparr>"

definition db_cancelled :: session where
  "db_cancelled = db_open\<lparr>bookings := [booking_ann\<lparr>booking_status := CANCELLED\<rparr>]\<rparr>"

text \<open>
  The end-to-end scenario on the slot of capacity one: Ann reserves, Bob is refused, Ann
  cancels, Bob reserves.
\<close>

definition requests_end_to_end :: "request list" where
  "requests_end_to_end =
     [Reserve ''s1'' ''Ann'' ''ann@example.org'' ''b1'' 10,
      Reserve ''s1'' ''Bob'' ''bob@example.org'' ''b2'' 20,
      Cancel ''b1'',
      Reserve ''s1'' ''Bob'' ''bob@example.org'' ''b3'' 30]"

text \<open>An event with the slot above, and a session in which Ann's booking has a review.\<close>

definition event_E :: Event where
  "event_E = \<lparr>event_id = ''e1'', title = ''Design Sprint'',
              description = ''Rapid prototyping session'', host_name = ''Alice'',
              category = ''Design'', duration_min = 90, price_minor = 4500,
              currency = ''USD'', rating_avg = None, rating_count = 0,
              timezone = ''America/New_York'', image_url = None, created_at = 0,
              search_vector = None\<rparr>"

definition review_ann :: Review where
  "review_ann = \<lparr>review_id = ''r1'', review_event_id = ''e1'', review_booking_id = ''b1'',
                 rating = 4, comment = None, review_created_at = 50\<rparr>"

definition db_event :: session where
  "db_event = db_booked\<lparr>events := [event_E]\<rparr>"

definition db_reviewed :: session where
  "db_reviewed = db_booked\<lparr>events := [event_E\<lparr>rating_avg := Some 4, rating_count := 1\<rparr>],
                            reviews := [review_ann]\<rparr>"

text \<open>A session in which the event has two reviews of one star each.\<close>

definition review_one :: "ident \<Rightarrow> ident \<Rightarrow> Review" where
  "review_one rid bid = \<lparr>review_id = rid, review_event_id = ''e1'', review_booking_id = bid,
                         rating = 1, comment = None, review_created_at = 50\<rparr>"

definition db_two_reviews :: session where
  "db_two_reviews =
     db_booked\<lparr>events := [event_E\<lparr>rating_avg := Some 1, rating_count := 2\<rparr>],
               reviews := [review_one ''r1'' ''b1'', review_one ''r2'' ''b2'']\<rparr>"

text \<open>
  A session for the popularity sort, evaluated at day 100: event \<open>eA\<close> has five CONFIRMED
  bookings and a cancelled one at day 90, event \<open>eB\<close> has no slot and no booking, and the
  only booking of event \<open>eC\<close> dates from day 10.
\<close>

definition example_event :: "ident \<Rightarrow> datetime \<Rightarrow> Event" where
  "example_event eid created = event_E\<lparr>event_id := eid, created_at := created\<rparr>"

definition example_booking :: "ident \<Rightarrow> ident \<Rightarrow> string \<Rightarrow> BookingStatus \<Rightarrow> datetime \<Rightarrow> Booking" where
  "example_booking bid sid email st booked =
     \<lparr>booking_id = bid, booking_slot_id = sid, booking_name = ''Guest'',
      booking_email = email, booking_status = st, booked_at = booked\<rparr>"

definition db_popular :: session where
  "db_popular =
     \<lparr>events = [example_event ''eC'' 100, example_event ''eB'' 200, example_event ''eA'' 300],
      slots = [slot_A\<lparr>slot_id := ''sA'', slot_event_id := ''eA'', max_bookings := 10\<rparr>,
               slot_A\<lparr>slot_id := ''sC'', slot_event_id := ''eC'', max_bookings := 10\<rparr>],
      bookings = [example_booking ''k1'' ''sA'' ''u1@example.org'' CONFIRMED (timedelta_days 90),
                  example_booking ''k2'' ''sA'' ''u2@example.org'' CONFIRMED (timedelta_days 90),
                  example_booking ''k3'' ''sA'' ''u3@example.org'' CONFIRMED (timedelta_days 90),
                  example_booking ''k4'' ''sA'' ''u4@example.org'' CONFIRMED (timedelta_days 90),
                  example_booking ''k5'' ''sA'' ''u5@example.org'' CONFIRMED (timedelta_days 90),
                  example_booking ''k6'' ''sA'' ''u6@example.org'' CANCELLED (timedelta_days 90),
                  example_booking ''k7'' ''sC'' ''u7@example.org'' CONFIRMED (timedelta_days 10)],
      reviews = [], outbox = []\<rparr>"


section \<open>Properties of double-precision rounding\<close>

lemma pow2_pos [simp]: "0 < pow2 e"
  by (simp add: pow2_def)

lemma pow2_nonneg [simp]: "0 \<le> pow2 e"
  by (simp add: pow2_def)

lemma pow2_zero [simp]: "pow2 0 = 1"
  by (simp add: pow2_def)

lemma pow2_succ: "pow2 (e + 1) = 2 * pow2 e"
proof (cases "e \<ge> 0")
  case True
  then show ?thesis by (simp add: pow2_def nat_add_distrib)
next
  case False
  then have "nat (- e) = Suc (nat (- (e + 1)))" by simp
  then show ?thesis using False by (simp add: pow2_def)
qed

lemma pow2_pred: "pow2 (e - 1) = pow2 e / 2"
  using pow2_succ [of "e - 1"] by simp

lemma float_exponent_bounds:
  "0 < x \<Longrightarrow> pow2 (float_exponent x) \<le> x \<and> x < 2 * pow2 (float_exponent x)"
proof (induction x rule: float_exponent.induct)
  case (1 x)
  show ?case
  proof (cases "2 \<le> x")
    case True
    with "1.prems" "1.IH"(1) have "pow2 (float_exponent (x / 2)) \<le> x / 2 \<and> x / 2 < 2 * pow2 (float_exponent (x / 2))"
      by simp
    moreover have "float_exponent x = float_exponent (x / 2) + 1"
      using True "1.prems" by (subst float_exponent.simps) simp
    ultimately show ?thesis by (simp add: pow2_succ)
  next
    case False
    show ?thesis
    proof (cases "x < 1")
      case True
      with False "1.prems" "1.IH"(2) have "pow2 (float_exponent (2 * x)) \<le> 2 * x \<and> 2 * x < 2 * pow2 (float_exponent (2 * x))"
        by simp
      moreover have "float_exponent x = float_exponent (2 * x) - 1"
        using True False "1.prems" by (subst float_exponent.simps) simp
      ultimately show ?thesis by (simp add: pow2_pred)
    next
      case ge: False
      have "float_exponent x = 0"
        using ge False "1.prems" by (subst float_exponent.simps) simp
      then show ?thesis using ge False by (simp add: pow2_def)
    qed
  qed
qed

lemma py_round_nearest: "\<bar>of_int (py_round x) - x\<bar> \<le> 1 / 2"
proof -
  have "of_int \<lfloor>x\<rfloor> \<le> x" "x < of_int \<lfloor>x\<rfloor> + 1" by linarith+
  then show ?thesis
    by (auto simp: py_round_def Let_def abs_le_iff)
qed

lemma py_round_of_int [simp]: "py_round (of_int n) = n"
  by (simp add: py_round_def Let_def)

lemma round_double_error:
  "\<bar>round_double x - x\<bar> \<le> pow2 (max (float_exponent \<bar>x\<bar>) (- 1022) - 52) / 2"
proof (cases "x = 0")
  case True
  then show ?thesis by (simp add: round_double_def)
next
  case False
  define u where "u = pow2 (max (float_exponent \<bar>x\<bar>) (- 1022) - 52)"
  have u: "0 < u" by (simp add: u_def)
  have "round_double x - x = (of_int (py_round (x / u)) - x / u) * u"
    using False u by (simp add: round_double_def Let_def u_def [symmetric] algebra_simps)
  then have "\<bar>round_double x - x\<bar> = \<bar>of_int (py_round (x / u)) - x / u\<bar> * u"
    using u by (simp add: abs_mult)
  also have "\<dots> \<le> (1 / 2) * u"
    using py_round_nearest [of "x / u"] u by (intro mult_right_mono) simp_all
  finally show ?thesis by (simp add: u_def)
qed

lemma pow2_add_nat: "pow2 (e + int n) = pow2 e * 2 ^ n"
proof (induction n)
  case 0
  then show ?case by simp
next
  case (Suc n)
  have "e + int (Suc n) = (e + int n) + 1" by simp
  then have "pow2 (e + int (Suc n)) = 2 * pow2 (e + int n)"
    by (simp only: pow2_succ)
  with Suc show ?case by simp
qed

lemma pow2_diff: "pow2 (e - 52) = pow2 e / 2 ^ 52"
  using pow2_add_nat [of "e - 52" 52] by simp

lemma pow2_mono: "a \<le> b \<Longrightarrow> pow2 a \<le> pow2 b"
proof -
  assume "a \<le> b"
  then have "b = a + int (nat (b - a))" by simp
  then have "pow2 b = pow2 a * 2 ^ nat (b - a)"
    by (metis pow2_add_nat)
  moreover have "(1::rat) \<le> 2 ^ nat (b - a)" by simp
  ultimately show ?thesis
    using pow2_pos [of a] mult_left_mono [of 1 "2 ^ nat (b - a)" "pow2 a"] by simp
qed

text \<open>The relative error of a rounding in the normal range is at most \<open>2^-53\<close>.\<close>
lemma round_double_relative:
  assumes "pow2 (- 1022) \<le> \<bar>x\<bar>"
  shows "\<bar>round_double x - x\<bar> \<le> \<bar>x\<bar> / 2 ^ 53"
proof -
  have pos: "0 < \<bar>x\<bar>" using assms pow2_pos [of "- 1022"] by linarith
  let ?e = "float_exponent \<bar>x\<bar>"
  from float_exponent_bounds [OF pos] have b: "pow2 ?e \<le> \<bar>x\<bar>" "\<bar>x\<bar> < 2 * pow2 ?e" by simp_all
  have "- 1022 \<le> ?e"
  proof (rule ccontr)
    assume "\<not> - 1022 \<le> ?e"
    then have "?e + 1 \<le> - 1022" by simp
    then have "pow2 (?e + 1) \<le> pow2 (- 1022)" by (rule pow2_mono)
    moreover have "\<bar>x\<bar> < pow2 (?e + 1)" using b(2) by (simp add: pow2_succ)
    ultimately show False using assms by linarith
  qed
  then have "max ?e (- 1022) = ?e" by simp
  with round_double_error [of x] have "\<bar>round_double x - x\<bar> \<le> pow2 (?e - 52) / 2" by simp
  also have "\<dots> = pow2 ?e / 2 ^ 53" by (simp add: pow2_diff)
  also have "\<dots> \<le> \<bar>x\<bar> / 2 ^ 53" using b(1) by (simp add: divide_right_mono)
  finally show ?thesis .
qed

lemma round_double_int:
  assumes "\<bar>n\<bar> \<le> 2 ^ 53"
  shows "round_double (of_int n) = of_int n"
proof (cases "n = 0")
  case True
  then show ?thesis by (simp add: round_double_def)
next
  case False
  let ?x = "\<bar>of_int n :: rat\<bar>"
  let ?e = "float_exponent ?x"
  have pos: "0 < ?x" using False by simp
  from float_exponent_bounds [OF pos] have b: "pow2 ?e \<le> ?x" "?x < 2 * pow2 ?e" by simp_all
  have one: "1 \<le> ?x" using False by (simp flip: of_int_abs add: )
  have e0: "0 \<le> ?e"
  proof (rule ccontr)
    assume "\<not> 0 \<le> ?e"
    then have "?e + 1 \<le> 0" by simp
    then have "pow2 (?e + 1) \<le> pow2 0" by (rule pow2_mono)
    moreover have "?x < pow2 (?e + 1)" using b(2) by (simp add: pow2_succ)
    ultimately show False using one by simp
  qed
  have le: "?x \<le> 2 ^ 53"
  proof -
    have "?x = of_int \<bar>n\<bar>" by simp
    also have "\<dots> \<le> of_int (2 ^ 53)" using assms by (simp only: of_int_le_iff)
    finally show ?thesis by simp
  qed
  have e53: "?e \<le> 53"
  proof (rule ccontr)
    assume "\<not> ?e \<le> 53"
    then have "54 \<le> ?e" by simp
    then have "pow2 54 \<le> pow2 ?e" by (rule pow2_mono)
    moreover have "pow2 54 = 2 ^ 54" by (simp add: pow2_def)
    ultimately show False using b(1) le by simp
  qed
  have m: "max ?e (- 1022) = ?e" using e0 by simp
  obtain k :: int where k: "of_int n / pow2 (?e - 52) = (of_int k :: rat)"
  proof (cases "?e \<le> 52")
    case True
    then have "pow2 (?e - 52) = 1 / 2 ^ nat (52 - ?e)" by (auto simp: pow2_def)
    then have "of_int n / pow2 (?e - 52) = (of_int (n * 2 ^ nat (52 - ?e)) :: rat)" by simp
    then show ?thesis by (rule that)
  next
    case False
    with e53 have e: "?e = 53" by simp
    then have "?x = 2 ^ 53" using b(1) le by (simp add: pow2_def)
    then have "\<bar>n\<bar> = 2 ^ 53"
      by (metis of_int_abs of_int_eq_iff of_int_numeral of_int_power)
    then have "n = 2 ^ 53 \<or> n = - (2 ^ 53)" by linarith
    then have "of_int n / pow2 (?e - 52) = (of_int (n div 2) :: rat)"
      unfolding e by (auto simp: pow2_def)
    then show ?thesis by (rule that)
  qed
  have "round_double (of_int n) = of_int (py_round (of_int n / pow2 (?e - 52))) * pow2 (?e - 52)"
    using False by (simp add: round_double_def Let_def m)
  also have "\<dots> = of_int k * pow2 (?e - 52)"
    by (simp only: k py_round_of_int)
  also have "\<dots> = of_int n"
    using k pow2_pos [of "?e - 52"] by (metis less_irrefl nonzero_eq_divide_eq)
  finally show ?thesis .
qed

lemma floor_rat_numeral_divide:
  "\<lfloor>numeral a / numeral b :: rat\<rfloor> = numeral a div numeral b"
  by (metis floor_divide_of_int_eq of_int_numeral)

lemma floor_rat_minus_numeral_divide:
  "\<lfloor>- (numeral a / numeral b) :: rat\<rfloor> = - numeral a div numeral b"
  by (metis divide_minus_left floor_divide_of_int_eq of_int_neg_numeral of_int_numeral)

lemmas py_round_eval = py_round_def Let_def floor_rat_numeral_divide floor_rat_minus_numeral_divide

lemma float_exponent_unique:
  assumes "pow2 e \<le> x" and "x < 2 * pow2 e"
  shows "float_exponent x = e"
proof -
  have pos: "0 < x" using assms(1) pow2_pos [of e] by linarith
  let ?f = "float_exponent x"
  from float_exponent_bounds [OF pos] have b: "pow2 ?f \<le> x" "x < 2 * pow2 ?f" by simp_all
  have "\<not> e < ?f"
  proof
    assume "e < ?f"
    then have "e + 1 \<le> ?f" by simp
    then have "pow2 (e + 1) \<le> pow2 ?f" by (rule pow2_mono)
    then show False using b(1) assms(2) by (simp add: pow2_succ)
  qed
  moreover have "\<not> ?f < e"
  proof
    assume "?f < e"
    then have "?f + 1 \<le> e" by simp
    then have "pow2 (?f + 1) \<le> pow2 e" by (rule pow2_mono)
    then show False using b(2) assms(1) by (simp add: pow2_succ)
  qed
  ultimately show ?thesis by simp
qed

lemma round_double_binade:
  assumes "pow2 e \<le> \<bar>x\<bar>" and "\<bar>x\<bar> < 2 * pow2 e" and "- 1022 \<le> e"
  shows "round_double x = of_int (py_round (x / pow2 (e - 52))) * pow2 (e - 52)"
proof -
  have "float_exponent \<bar>x\<bar> = e" using assms(1,2) by (rule float_exponent_unique)
  moreover have "x \<noteq> 0"
  proof
    assume "x = 0"
    with assms(1) have "pow2 e \<le> 0" by simp
    with pow2_pos [of e] show False by linarith
  qed
  ultimately show ?thesis using assms(3) by (simp add: round_double_def Let_def max_def)
qed


lemma py_round_ge_floor: "\<lfloor>x\<rfloor> \<le> py_round x"
  by (simp add: py_round_def Let_def)

lemma py_round_mono_int:
  assumes "of_int n \<le> x"
  shows "n \<le> py_round x"
proof -
  from assms have "n \<le> \<lfloor>x\<rfloor>" by (simp add: le_floor_iff)
  with py_round_ge_floor [of x] show ?thesis by linarith
qed

lemma py_round_minus: "py_round (- x) = - py_round x"
proof (cases "x = of_int \<lfloor>x\<rfloor>")
  case True
  then obtain n where "x = of_int n" ..
  then show ?thesis by (simp flip: of_int_minus)
next
  case False
  then have lt: "of_int \<lfloor>x\<rfloor> < x" using of_int_floor_le [of x] by linarith
  have "x < of_int \<lfloor>x\<rfloor> + 1" by linarith
  then have fl: "\<lfloor>- x\<rfloor> = - \<lfloor>x\<rfloor> - 1"
    using lt by (intro floor_unique) simp_all
  show ?thesis
    unfolding py_round_def Let_def fl
    using lt by (auto simp: algebra_simps)
qed

lemma round_double_minus: "round_double (- x) = - round_double x"
  by (simp add: round_double_def Let_def py_round_minus)

lemma float_exponent_ge:
  assumes "pow2 e \<le> x"
  shows "e \<le> float_exponent x"
proof (rule ccontr)
  assume "\<not> e \<le> float_exponent x"
  then have "float_exponent x + 1 \<le> e" by simp
  then have "pow2 (float_exponent x + 1) \<le> pow2 e" by (rule pow2_mono)
  moreover have "0 < x" using assms pow2_pos [of e] by linarith
  from float_exponent_bounds [OF this] have "x < pow2 (float_exponent x + 1)"
    by (simp add: pow2_succ)
  ultimately show False using assms by linarith
qed

lemma round_double_lower:
  assumes "pow2 e \<le> x" and "- 1022 \<le> e"
  shows "pow2 e \<le> round_double x"
proof -
  let ?f = "float_exponent x"
  have pos: "0 < x" using assms(1) pow2_pos [of e] by linarith
  have ef: "e \<le> ?f" using assms(1) by (rule float_exponent_ge)
  from float_exponent_bounds [OF pos] have b: "pow2 ?f \<le> x" by simp
  have u: "0 < pow2 (?f - 52)" by simp
  have "pow2 ?f = 2 ^ 52 * pow2 (?f - 52)" by (simp add: pow2_diff)
  then have "of_int (2 ^ 52) \<le> x / pow2 (?f - 52)"
    using b u by (simp add: pos_le_divide_eq)
  then have "2 ^ 52 \<le> py_round (x / pow2 (?f - 52))" by (rule py_round_mono_int)
  then have "(of_int (2 ^ 52) :: rat) \<le> of_int (py_round (x / pow2 (?f - 52)))"
    by (simp only: of_int_le_iff)
  then have m: "of_int (2 ^ 52) * pow2 (?f - 52)
                 \<le> of_int (py_round (x / pow2 (?f - 52))) * pow2 (?f - 52)"
    using u by (intro mult_right_mono) simp_all
  have "max ?f (- 1022) = ?f" using ef assms(2) by simp
  then have r: "round_double x = of_int (py_round (x / pow2 (?f - 52))) * pow2 (?f - 52)"
    using pos by (simp add: round_double_def Let_def)
  have p: "of_int (2 ^ 52) * pow2 (?f - 52) = pow2 ?f" by (simp add: pow2_diff)
  have "pow2 ?f \<le> round_double x" using m unfolding p r .
  moreover have "pow2 e \<le> pow2 ?f" using ef by (rule pow2_mono)
  ultimately show ?thesis by linarith
qed

lemma round_double_normal:
  assumes "pow2 (- 1022) \<le> \<bar>x\<bar>"
  shows "pow2 (- 1022) \<le> \<bar>round_double x\<bar>"
proof (cases "0 \<le> x")
  case True
  with assms have "pow2 (- 1022) \<le> x" by simp
  then have "pow2 (- 1022) \<le> round_double x" by (rule round_double_lower) simp
  then show ?thesis by linarith
next
  case False
  with assms have "pow2 (- 1022) \<le> - x" by simp
  then have "pow2 (- 1022) \<le> round_double (- x)" by (rule round_double_lower) simp
  then show ?thesis by (simp add: round_double_minus)
qed

text \<open>
  Two roundings in a row: that of a quotient \<open>q\<close>, then that of its product with an integer.
\<close>
lemma round_double_product_error:
  fixes q :: rat
  assumes a: "a \<noteq> 0" and q: "pow2 (- 1022) \<le> \<bar>q\<bar>"
  shows "\<bar>round_double (of_int a * round_double q) - of_int a * q\<bar>
           \<le> \<bar>of_int a * q\<bar> * (2 / 2 ^ 53 + 1 / 2 ^ 106)"
proof -
  define u :: rat where "u = 1 / 2 ^ 53"
  define q' where "q' = round_double q"
  define A :: rat where "A = \<bar>of_int a\<bar>"
  have u0: "0 \<le> u" by (simp add: u_def)
  have A1: "1 \<le> A" using a by (simp add: A_def flip: of_int_abs)
  have e1: "\<bar>q' - q\<bar> \<le> \<bar>q\<bar> * u"
    using round_double_relative [OF q] by (simp add: q'_def u_def)
  have "pow2 (- 1022) \<le> \<bar>q'\<bar>" unfolding q'_def using q by (rule round_double_normal)
  also have "\<bar>q'\<bar> \<le> A * \<bar>q'\<bar>" using A1 by (simp add: mult_le_cancel_right1)
  finally have "pow2 (- 1022) \<le> \<bar>of_int a * q'\<bar>" by (simp add: abs_mult A_def)
  from round_double_relative [OF this]
  have e2: "\<bar>round_double (of_int a * q') - of_int a * q'\<bar> \<le> A * \<bar>q'\<bar> * u"
    by (simp add: abs_mult A_def u_def)
  have "\<bar>q'\<bar> \<le> \<bar>q\<bar> + \<bar>q\<bar> * u" using e1 by linarith
  then have "A * \<bar>q'\<bar> \<le> A * (\<bar>q\<bar> + \<bar>q\<bar> * u)"
    using A1 by (intro mult_left_mono) simp_all
  then have "A * \<bar>q'\<bar> * u \<le> A * (\<bar>q\<bar> + \<bar>q\<bar> * u) * u"
    using u0 by (rule mult_right_mono)
  with e2 have e3: "\<bar>round_double (of_int a * q') - of_int a * q'\<bar> \<le> A * (\<bar>q\<bar> + \<bar>q\<bar> * u) * u"
    by linarith
  have "\<bar>of_int a * q' - of_int a * q\<bar> = A * \<bar>q' - q\<bar>"
    by (simp add: A_def abs_mult flip: right_diff_distrib)
  also have "\<dots> \<le> A * (\<bar>q\<bar> * u)" using e1 A1 by (intro mult_left_mono) simp_all
  finally have e4: "\<bar>of_int a * q' - of_int a * q\<bar> \<le> A * (\<bar>q\<bar> * u)" .
  have "\<bar>round_double (of_int a * q') - of_int a * q\<bar>
          \<le> \<bar>round_double (of_int a * q') - of_int a * q'\<bar> + \<bar>of_int a * q' - of_int a * q\<bar>"
    by linarith
  also have "\<dots> \<le> A * (\<bar>q\<bar> + \<bar>q\<bar> * u) * u + A * (\<bar>q\<bar> * u)" using e3 e4 by linarith
  also have "\<dots> = A * \<bar>q\<bar> * (2 * u + u * u)" by (simp add: algebra_simps)
  also have "2 * u + u * u = 2 / 2 ^ 53 + 1 / 2 ^ 106" by (simp add: u_def)
  finally show ?thesis by (simp add: q'_def A_def abs_mult)
qed
section \<open>Properties of the booking guard\<close>

lemma bookings_broadcast [simp]: "bookings (broadcast_slot_update db s) = bookings db"
  and slots_broadcast [simp]: "slots (broadcast_slot_update db s) = slots db"
  by (simp_all add: broadcast_slot_update_def)

lemma bookings_send [simp]: "bookings (send_booking_email_delay db b) = bookings db"
  and slots_send [simp]: "slots (send_booking_email_delay db b) = slots db"
  by (simp_all add: send_booking_email_delay_def)

lemma booking_exists_iff:
  "booking_exists db sid email \<longleftrightarrow>
     (\<exists>b \<in> set (bookings db). booking_slot_id b = sid \<and> booking_email b = email
                              \<and> booking_status b = CONFIRMED)"
  by (auto simp: booking_exists_def filter_empty_conv)

text \<open>The branches of \<^const>\<open>make_booking\<close>, with the insert unfolded.\<close>

lemma make_booking_eq:
  "make_booking db slot name email new_id now =
     (if booking_exists db (slot_id slot) email
      then (Inl (HTTPException 409 ''You have already booked this slot.''), db)
      else if booking_count db (slot_id slot) \<ge> max_bookings slot
      then (Inl (HTTPException 409 ''Slot is already full.''), db)
      else if new_id \<in> set (map booking_id (bookings db))
      then (Inl (IntegrityError ''booking.id''), db)
      else if \<exists>b \<in> set (bookings db). booking_slot_id b = slot_id slot \<and> booking_email b = email
      then (Inl (IntegrityError ''uix_slot_email''), db)
      else (Inr (new_booking (slot_id slot) name email new_id now),
            broadcast_slot_update (send_booking_email_delay
              (db\<lparr>bookings := bookings db @ [new_booking (slot_id slot) name email new_id now]\<rparr>)
              new_id) slot))"
  by (auto simp: make_booking_def create_booking_def insert_booking_def new_booking_def Let_def)

lemma make_booking_cases:
  obtains (refused) e where "make_booking db slot name email new_id now = (Inl e, db)"
  | (booked) "make_booking db slot name email new_id now =
        (Inr (new_booking (slot_id slot) name email new_id now),
         broadcast_slot_update (send_booking_email_delay
           (db\<lparr>bookings := bookings db @ [new_booking (slot_id slot) name email new_id now]\<rparr>)
           new_id) slot)"
      "\<not> booking_exists db (slot_id slot) email"
      "booking_count db (slot_id slot) < max_bookings slot"
      "new_id \<notin> set (map booking_id (bookings db))"
      "\<forall>b \<in> set (bookings db). \<not> (booking_slot_id b = slot_id slot \<and> booking_email b = email)"
proof (cases "fst (make_booking db slot name email new_id now)")
  case (Inl e)
  then have "make_booking db slot name email new_id now = (Inl e, db)"
    by (simp add: make_booking_eq split: if_splits)
  then show ?thesis by (rule refused)
next
  case (Inr b)
  then show ?thesis
    by (intro booked) (simp_all add: make_booking_eq split: if_splits)
qed

lemma make_booking_slots [simp]:
  "slots (snd (make_booking db slot name email new_id now)) = slots db"
  by (cases rule: make_booking_cases [of db slot name email new_id now]) simp_all

text \<open>Cancelling touches the status of the rows with the booking's id, nothing else.\<close>

lemma cancel_row_keys [simp]:
  "booking_id (cancel_row bid r) = booking_id r"
  "booking_slot_id (cancel_row bid r) = booking_slot_id r"
  "booking_email (cancel_row bid r) = booking_email r"
  by (simp_all add: cancel_row_def)




lemma confirmed_count_cancel_le:
  "length (filter (\<lambda>b. booking_slot_id b = sid \<and> booking_status b = CONFIRMED)
      (map (cancel_row bid) bs))
   \<le> length (filter (\<lambda>b. booking_slot_id b = sid \<and> booking_status b = CONFIRMED) bs)"
  by (induction bs) (auto simp: cancel_row_def)



lemma crud_cancel_slots [simp]: "slots (snd (crud_cancel_booking db b)) = slots db"
  by (simp add: crud_cancel_booking_def)

lemma crud_cancel_bookings:
  "bookings (snd (crud_cancel_booking db b)) = bookings db \<or>
   bookings (snd (crud_cancel_booking db b)) = map (cancel_row (booking_id b)) (bookings db)"
  by (simp add: crud_cancel_booking_def)

lemma booking_count_crud_cancel:
  "booking_count (snd (crud_cancel_booking db b)) sid \<le> booking_count db sid"
  using confirmed_count_cancel_le [of sid "booking_id b" "bookings db"]
  by (simp add: crud_cancel_booking_def booking_count_def)

lemma cancel_booking_bookings:
  "bookings (snd (cancel_booking db b)) = bookings (snd (crud_cancel_booking db b))"
  by (auto simp: cancel_booking_def crud_cancel_booking_def split: prod.splits option.splits)

lemma cancel_booking_slots [simp]: "slots (snd (cancel_booking db b)) = slots db"
  by (auto simp: cancel_booking_def crud_cancel_booking_def split: prod.splits option.splits)

lemma booking_count_cancel:
  "booking_count (snd (cancel_booking db b)) sid \<le> booking_count db sid"
  using cancel_booking_bookings [of db b] booking_count_crud_cancel [of db b sid]
  by (simp add: booking_count_def)



text \<open>What a request can do to the booking table.\<close>

lemma handle_slots [simp]: "slots (handle db r) = slots db"
  by (cases r) (auto split: option.splits)

lemma session_get_slot_handle [simp]:
  "session_get_slot (handle db r) sid = session_get_slot db sid"
  by (simp add: session_get_slot_def)

lemma session_get_slot_id: "session_get_slot db sid = Some s \<Longrightarrow> slot_id s = sid"
  by (auto simp: session_get_slot_def find_Some_iff)

lemma handle_bookings:
  "bookings (handle db r) = bookings db
   \<or> (\<exists>bid. bookings (handle db r) = map (cancel_row bid) (bookings db))
   \<or> (\<exists>b. bookings (handle db r) = bookings db @ [b] \<and>
           (\<forall>b' \<in> set (bookings db). \<not> (booking_slot_id b' = booking_slot_id b
                                          \<and> booking_email b' = booking_email b)))"
proof (cases r)
  case (Reserve sid name email new_id now)
  show ?thesis
  proof (cases "session_get_slot db sid")
    case None
    then show ?thesis using Reserve by simp
  next
    case (Some slot)
    show ?thesis
    proof (cases rule: make_booking_cases [of db slot name email new_id now])
      case (refused e)
      then show ?thesis using Reserve Some by simp
    next
      case booked
      then have "bookings (handle db r)
                   = bookings db @ [new_booking (slot_id slot) name email new_id now]"
        using Reserve Some by simp
      then show ?thesis using booked(5) by (auto simp: new_booking_def)
    qed
  qed
next
  case (Cancel bid)
  then show ?thesis
    using crud_cancel_bookings [of db]
    by (auto simp: cancel_booking_bookings split: option.splits)
next
  case (CancelPure bid)
  then show ?thesis
    using crud_cancel_bookings [of db]
    by (auto split: option.splits)
qed

lemma booking_count_make_booking:
  assumes "slot_id slot = sid \<longrightarrow> max_bookings slot = n" and "booking_count db sid \<le> n"
  shows "booking_count (snd (make_booking db slot name email new_id now)) sid \<le> n"
proof (cases rule: make_booking_cases [of db slot name email new_id now])
  case (refused e)
  then show ?thesis using assms by simp
next
  case booked
  then show ?thesis using assms
    by (cases "slot_id slot = sid") (simp_all add: booking_count_def new_booking_def)
qed

lemma booking_count_handle:
  assumes "session_get_slot db sid = Some s" and "booking_count db sid \<le> max_bookings s"
  shows "booking_count (handle db r) sid \<le> max_bookings s"
proof (cases r)
  case (Reserve sid' name email new_id now)
  show ?thesis
  proof (cases "session_get_slot db sid'")
    case None
    then show ?thesis using Reserve assms by simp
  next
    case (Some slot)
    have "slot_id slot = sid \<longrightarrow> max_bookings slot = max_bookings s"
      using Some assms(1) session_get_slot_id [OF Some] by auto
    from booking_count_make_booking [OF this assms(2)]
    show ?thesis using Reserve Some assms(2) by simp
  qed
next
  case (Cancel bid)
  then show ?thesis
    using assms(2) booking_count_cancel [of db _ sid]
    by (auto intro: order_trans split: option.splits)
next
  case (CancelPure bid)
  then show ?thesis
    using assms(2) booking_count_crud_cancel [of db _ sid]
    by (auto intro: order_trans split: option.splits)
qed

lemma unique_slot_email_handle:
  assumes "unique_slot_email db"
  shows "unique_slot_email (handle db r)"
proof -
  let ?key = "\<lambda>b. (booking_slot_id b, booking_email b)"
  from handle_bookings [of db r] consider
    (same) "bookings (handle db r) = bookings db"
    | (cancelled) bid where "bookings (handle db r) = map (cancel_row bid) (bookings db)"
    | (added) b where "bookings (handle db r) = bookings db @ [b]"
        "\<forall>b' \<in> set (bookings db). \<not> (booking_slot_id b' = booking_slot_id b
                                       \<and> booking_email b' = booking_email b)"
    by blast
  then show ?thesis
  proof cases
    case same
    then show ?thesis using assms by (simp add: unique_slot_email_def)
  next
    case cancelled
    have "?key \<circ> cancel_row bid = ?key"
      by (simp add: fun_eq_iff)
    then show ?thesis using assms cancelled by (simp add: unique_slot_email_def)
  next
    case added
    from added(2) have "?key b \<notin> set (map ?key (bookings db))" by auto
    then show ?thesis using assms added(1) by (simp add: unique_slot_email_def)
  qed
qed

lemma unique_slot_email_run:
  "unique_slot_email db \<Longrightarrow> unique_slot_email (run db reqs)"
  unfolding run_def
  by (induction reqs arbitrary: db) (simp_all add: unique_slot_email_handle)

text \<open>Evaluation of the example sessions.\<close>

lemma run_reserve_cancel:
  "run db_open [Reserve ''s1'' ''Ann'' ''ann@example.org'' ''b1'' 10, Cancel ''b1'']
   = db_cancelled\<lparr>outbox := [SendBookingEmail ''b1'',
                              RedisPublish ''event:e1'' ''s1'' 0 True,
                              RedisPublish ''event:e1'' ''s1'' 0 True]\<rparr>"
  by (simp add: run_def session_get_slot_def session_get_booking_def db_open_def slot_A_def
      make_booking_eq booking_exists_iff booking_count_def new_booking_def
      broadcast_slot_update_def send_booking_email_delay_def remaining_def is_full_def
      slot_bookings_def cancel_booking_def
      crud_cancel_booking_def cancel_row_def booking_slot_def db_cancelled_def booking_ann_def)
section \<open>Claims on the booking guard\<close>

text \<open>
  Claim C1. For every slot with capacity \<^verbatim>\<open>max_bookings\<close> = N, after any sequence of
  reservation and cancellation operations (reserve via \<^verbatim>\<open>make_booking\<close>, cancel via
  \<^verbatim>\<open>cancel_booking\<close>), the number of bookings with status CONFIRMED referring to that slot
  is at most N. The sequence runs on a session in which the slot is stored and not yet
  over its capacity.
\<close>

theorem capacity_never_exceeded:
  assumes "session_get_slot db sid = Some s" and "booking_count db sid \<le> max_bookings s"
  shows "booking_count (run db reqs) sid \<le> max_bookings s"
  using assms unfolding run_def
proof (induction reqs arbitrary: db)
  case Nil
  then show ?case by simp
next
  case (Cons r reqs)
  from Cons.prems have "session_get_slot (handle db r) sid = Some s" by simp
  moreover from Cons.prems have "booking_count (handle db r) sid \<le> max_bookings s"
    by (rule booking_count_handle)
  ultimately show ?case using Cons.IH by simp
qed

theorem capacity_never_exceeded_witness:
  "session_get_slot db_open ''s1'' = Some slot_A \<and>
   booking_count db_open ''s1'' \<le> max_bookings slot_A \<and>
   booking_count (run db_open requests_end_to_end) ''s1'' \<le> max_bookings slot_A"
proof -
  have h1: "session_get_slot db_open ''s1'' = Some slot_A"
    by (simp add: session_get_slot_def db_open_def slot_A_def)
  have h2: "booking_count db_open ''s1'' \<le> max_bookings slot_A"
    by (simp add: booking_count_def db_open_def slot_A_def)
  show ?thesis
    using h1 h2 capacity_never_exceeded [OF h1 h2, of requests_end_to_end] by simp
qed

text \<open>
  Claim C2, as stated, fails: it promises a new CONFIRMED booking whenever neither check
  fires. In the session where Ann's only booking of the slot was cancelled, no CONFIRMED
  booking of the pair exists and the slot has room, yet the insert violates
  \<^verbatim>\<open>uix_slot_email\<close>: \<^verbatim>\<open>make_booking\<close> raises \<^verbatim>\<open>IntegrityError\<close> and nothing is inserted.
  That session is the one reached by Ann reserving and then cancelling.
\<close>

theorem make_booking_after_cancel_counterexample:
  "bookings (run db_open [Reserve ''s1'' ''Ann'' ''ann@example.org'' ''b1'' 10,
                          Cancel ''b1'']) = bookings db_cancelled \<and>
   \<not> booking_exists db_cancelled (slot_id slot_A) ''ann@example.org'' \<and>
   \<not> booking_count db_cancelled (slot_id slot_A) \<ge> max_bookings slot_A \<and>
   make_booking db_cancelled slot_A ''Ann'' ''ann@example.org'' ''b2'' 20
     = (Inl (IntegrityError ''uix_slot_email''), db_cancelled)"
  unfolding run_reserve_cancel
  by (simp add: make_booking_eq booking_exists_iff booking_count_def
      db_cancelled_def db_open_def slot_A_def booking_ann_def new_booking_def)

text \<open>
  Claim C2, amended. \<^verbatim>\<open>make_booking\<close> evaluates its two preconditions in order before any
  write: if a CONFIRMED booking for (slot.id, email) exists it fails with DuplicateBooking
  and the session is unchanged; otherwise if the count of CONFIRMED bookings of the slot is
  at least \<^verbatim>\<open>max_bookings\<close> it fails with SlotFull and the session is unchanged; otherwise,
  if a booking row for (slot.id, email) exists (then a cancelled one), the insert is refused
  with \<^verbatim>\<open>IntegrityError\<close> and the session is unchanged; otherwise, the generated id being
  new, it persists and returns a new booking with status CONFIRMED.
\<close>

theorem make_booking_checks_in_order:
  "(booking_exists db (slot_id slot) email \<longrightarrow>
      make_booking db slot name email new_id now = (Inl DuplicateBooking, db)) \<and>
   (\<not> booking_exists db (slot_id slot) email \<and> booking_count db (slot_id slot) \<ge> max_bookings slot \<longrightarrow>
      make_booking db slot name email new_id now = (Inl SlotFull, db)) \<and>
   (\<not> booking_exists db (slot_id slot) email \<and> booking_count db (slot_id slot) < max_bookings slot \<and>
    (\<exists>b \<in> set (bookings db). booking_slot_id b = slot_id slot \<and> booking_email b = email) \<longrightarrow>
      (\<exists>c. make_booking db slot name email new_id now = (Inl (IntegrityError c), db))) \<and>
   (\<not> booking_exists db (slot_id slot) email \<and> booking_count db (slot_id slot) < max_bookings slot \<and>
    (\<forall>b \<in> set (bookings db). \<not> (booking_slot_id b = slot_id slot \<and> booking_email b = email)) \<and>
    new_id \<notin> set (map booking_id (bookings db)) \<longrightarrow>
      (\<exists>booking db'. make_booking db slot name email new_id now = (Inr booking, db') \<and>
         booking = \<lparr>booking_id = new_id, booking_slot_id = slot_id slot, booking_name = name,
                    booking_email = email, booking_status = CONFIRMED, booked_at = now\<rparr> \<and>
         bookings db' = bookings db @ [booking]))"
  by (auto simp: make_booking_eq new_booking_def)

theorem make_booking_checks_in_order_witness:
  "make_booking db_booked slot_A ''Ann'' ''ann@example.org'' ''b2'' 20
     = (Inl DuplicateBooking, db_booked) \<and>
   make_booking db_booked slot_A ''Bob'' ''bob@example.org'' ''b2'' 20
     = (Inl SlotFull, db_booked) \<and>
   (\<exists>c. make_booking db_cancelled slot_A ''Ann'' ''ann@example.org'' ''b2'' 20
     = (Inl (IntegrityError c), db_cancelled)) \<and>
   (\<exists>booking db'. make_booking db_cancelled slot_A ''Bob'' ''bob@example.org'' ''b2'' 20
     = (Inr booking, db') \<and> booking_status booking = CONFIRMED \<and>
       bookings db' = bookings db_cancelled @ [booking])"
proof -
  have ex: "booking_exists db_booked (slot_id slot_A) ''ann@example.org''"
    "\<not> booking_exists db_booked (slot_id slot_A) ''bob@example.org''"
    "\<not> booking_exists db_cancelled (slot_id slot_A) ''ann@example.org''"
    "\<not> booking_exists db_cancelled (slot_id slot_A) ''bob@example.org''"
    by (simp_all add: booking_exists_iff db_booked_def db_cancelled_def db_open_def slot_A_def
        booking_ann_def new_booking_def)
  have cnt: "booking_count db_booked (slot_id slot_A) \<ge> max_bookings slot_A"
    "booking_count db_cancelled (slot_id slot_A) < max_bookings slot_A"
    by (simp_all add: booking_count_def db_booked_def db_cancelled_def db_open_def slot_A_def
        booking_ann_def new_booking_def)
  have row: "\<exists>b \<in> set (bookings db_cancelled).
               booking_slot_id b = slot_id slot_A \<and> booking_email b = ''ann@example.org''"
    "\<forall>b \<in> set (bookings db_cancelled).
        \<not> (booking_slot_id b = slot_id slot_A \<and> booking_email b = ''bob@example.org'')"
    "''b2'' \<notin> set (map booking_id (bookings db_cancelled))"
    by (simp_all add: db_cancelled_def db_open_def slot_A_def booking_ann_def new_booking_def)
  show ?thesis
    using ex cnt row
      make_booking_checks_in_order [of db_booked slot_A "''ann@example.org''" "''Ann''" "''b2''" 20]
      make_booking_checks_in_order [of db_booked slot_A "''bob@example.org''" "''Bob''" "''b2''" 20]
      make_booking_checks_in_order [of db_cancelled slot_A "''ann@example.org''" "''Ann''" "''b2''" 20]
      make_booking_checks_in_order [of db_cancelled slot_A "''bob@example.org''" "''Bob''" "''b2''" 20]
    by (simp only: simp_thms) auto
qed

text \<open>
  Claim C3 says that \<^verbatim>\<open>remaining\<close> and \<^verbatim>\<open>is_full\<close> count only CONFIRMED bookings. The
  properties of \<^verbatim>\<open>Slot\<close> take the length of \<^verbatim>\<open>self.bookings\<close>, which holds the cancelled
  bookings too, while \<^verbatim>\<open>booking_count\<close>, the sibling used for the capacity check, counts
  CONFIRMED bookings only. On the slot of capacity one whose only booking is cancelled
  (the session reached by Ann reserving and then cancelling), the confirmed count is 0, so the claim gives \<^verbatim>\<open>remaining\<close> = 1 and \<^verbatim>\<open>is_full\<close> = False; the
  code gives \<^verbatim>\<open>remaining\<close> = 0 and \<^verbatim>\<open>is_full\<close> = True.
\<close>

theorem remaining_counts_cancelled_bookings:
  "bookings (run db_open [Reserve ''s1'' ''Ann'' ''ann@example.org'' ''b1'' 10,
                          Cancel ''b1'']) = bookings db_cancelled \<and>
   booking_count db_cancelled (slot_id slot_A) = 0 \<and>
   max (max_bookings slot_A - booking_count db_cancelled (slot_id slot_A)) 0 = 1 \<and>
   remaining db_cancelled slot_A = 0 \<and>
   is_full db_cancelled slot_A"
  unfolding run_reserve_cancel
  by (simp add: booking_count_def remaining_def is_full_def slot_bookings_def
      db_cancelled_def db_open_def slot_A_def booking_ann_def new_booking_def)



text \<open>
  Claim C5. For every slot and e-mail, at most one booking row with that (slot, email) pair
  exists regardless of booking status: the property holds after every sequence of
  requests on a session in which it holds. So a reservation for the pair of a stored
  booking, in particular of a cancelled one, raises and inserts nothing: re-booking after
  cancellation under the same e-mail and slot does not create a second booking.
\<close>

theorem slot_email_unique:
  assumes "unique_slot_email db"
  shows "unique_slot_email (run db reqs) \<and>
         (\<forall>b \<in> set (bookings (run db reqs)). \<forall>slot name new_id now.
            slot_id slot = booking_slot_id b \<longrightarrow>
            (\<exists>e. make_booking (run db reqs) slot name (booking_email b) new_id now
                    = (Inl e, run db reqs)))"
proof
  show "unique_slot_email (run db reqs)"
    using assms by (rule unique_slot_email_run)
  show "\<forall>b \<in> set (bookings (run db reqs)). \<forall>slot name new_id now.
            slot_id slot = booking_slot_id b \<longrightarrow>
            (\<exists>e. make_booking (run db reqs) slot name (booking_email b) new_id now
                    = (Inl e, run db reqs))"
  proof (intro ballI allI impI)
    fix b and slot :: Slot and name new_id now
    assume b: "b \<in> set (bookings (run db reqs))" and s: "slot_id slot = booking_slot_id b"
    show "\<exists>e. make_booking (run db reqs) slot name (booking_email b) new_id now
                 = (Inl e, run db reqs)"
    proof (cases rule: make_booking_cases [of "run db reqs" slot name "booking_email b" new_id now])
      case (refused e)
      then show ?thesis by blast
    next
      case booked
      with b s show ?thesis by auto
    qed
  qed
qed

theorem slot_email_unique_witness:
  "unique_slot_email db_open \<and>
   unique_slot_email (run db_open [Reserve ''s1'' ''Ann'' ''ann@example.org'' ''b1'' 10,
                                   Cancel ''b1'']) \<and>
   booking_ann\<lparr>booking_status := CANCELLED\<rparr>
     \<in> set (bookings (run db_open [Reserve ''s1'' ''Ann'' ''ann@example.org'' ''b1'' 10,
                                   Cancel ''b1''])) \<and>
   (\<exists>e. make_booking (run db_open [Reserve ''s1'' ''Ann'' ''ann@example.org'' ''b1'' 10,
                                   Cancel ''b1''])
            slot_A ''Ann'' ''ann@example.org'' ''b2'' 20
         = (Inl e, run db_open [Reserve ''s1'' ''Ann'' ''ann@example.org'' ''b1'' 10,
                                Cancel ''b1'']))"
proof -
  let ?reqs = "[Reserve ''s1'' ''Ann'' ''ann@example.org'' ''b1'' 10, Cancel ''b1'']"
  have h: "unique_slot_email db_open"
    by (simp add: unique_slot_email_def db_open_def)
  have b: "booking_ann\<lparr>booking_status := CANCELLED\<rparr> \<in> set (bookings (run db_open ?reqs))"
    unfolding run_reserve_cancel by (simp add: db_cancelled_def)
  have s: "slot_id slot_A = booking_slot_id (booking_ann\<lparr>booking_status := CANCELLED\<rparr>)"
    and e: "booking_email (booking_ann\<lparr>booking_status := CANCELLED\<rparr>) = ''ann@example.org''"
    by (simp_all add: slot_A_def booking_ann_def new_booking_def)
  note u = slot_email_unique [OF h, of ?reqs]
  from u [THEN conjunct2, rule_format, OF b s, of "''Ann''" "''b2''" 20]
  have "\<exists>e. make_booking (run db_open ?reqs) slot_A ''Ann'' ''ann@example.org'' ''b2'' 20
               = (Inl e, run db_open ?reqs)"
    unfolding e .
  then show ?thesis using h b u [THEN conjunct1] by blast
qed

section \<open>Properties of the rating aggregator and the review guard\<close>

lemma reviews_recompute [simp]: "reviews (recompute_event_rating db eid) = reviews db"
  by (simp add: recompute_event_rating_def Let_def)

lemma events_recompute:
  "events (recompute_event_rating db eid) =
     map (\<lambda>e. if event_id e = eid
               then e\<lparr>rating_avg := func_avg (map rating (linked_reviews db eid)),
                      rating_count := int (length (linked_reviews db eid))\<rparr> else e) (events db)"
  by (simp add: recompute_event_rating_def Let_def linked_reviews_def func_count_def)

lemma linked_reviews_recompute [simp]:
  "linked_reviews (recompute_event_rating db eid') eid = linked_reviews db eid"
  by (simp add: linked_reviews_def)

lemma func_avg_None [simp]: "func_avg xs = None \<longleftrightarrow> xs = []"
  by (simp add: func_avg_def)

text \<open>In range, the average of the store is the double nearest to the arithmetic mean.\<close>

lemma func_avg_nearest:
  assumes "xs \<noteq> []" and "\<bar>sum_list xs\<bar> \<le> 2 ^ 53" and "int (length xs) \<le> 2 ^ 53"
  shows "func_avg xs = Some (round_double (arithmetic_mean xs))"
proof -
  have "\<bar>int (length xs)\<bar> \<le> 2 ^ 53" using assms(3) by simp
  then have "round_double (of_int (int (length xs))) = of_int (int (length xs))"
    by (rule round_double_int)
  moreover have "round_double (of_int (sum_list xs)) = of_int (sum_list xs)"
    using assms(2) by (rule round_double_int)
  ultimately show ?thesis
    using assms(1) by (simp add: func_avg_def arithmetic_mean_def)
qed

text \<open>The mean of integers is zero or at least the reciprocal of their number.\<close>

lemma arithmetic_mean_error:
  assumes "xs \<noteq> []" and "int (length xs) \<le> 2 ^ 53"
  shows "\<bar>round_double (arithmetic_mean xs) - arithmetic_mean xs\<bar>
           \<le> \<bar>arithmetic_mean xs\<bar> / 2 ^ 53"
proof (cases "sum_list xs = 0")
  case True
  then show ?thesis by (simp add: arithmetic_mean_def round_double_def)
next
  case False
  define n :: rat where "n = of_int (int (length xs))"
  have n0: "0 < n" using assms(1) by (simp add: n_def)
  have "n \<le> of_int (2 ^ 53)" unfolding n_def using assms(2) by (simp only: of_int_le_iff)
  then have n53: "n \<le> 2 ^ 53" by simp
  have "1 \<le> \<bar>sum_list xs\<bar>" using False by simp
  then have "(of_int 1 :: rat) \<le> of_int \<bar>sum_list xs\<bar>" by (simp only: of_int_le_iff)
  then have s1: "1 \<le> \<bar>of_int (sum_list xs) :: rat\<bar>" by simp
  have "pow2 (- 1022) \<le> 1 / 2 ^ 53" by (simp add: pow2_def)
  also have "1 / 2 ^ 53 \<le> 1 / n" using n0 n53 by (simp add: frac_le)
  also have "1 / n \<le> \<bar>of_int (sum_list xs)\<bar> / n" using s1 n0 by (simp add: divide_right_mono)
  also have "\<dots> = \<bar>arithmetic_mean xs\<bar>" using n0 by (simp add: arithmetic_mean_def n_def)
  finally show ?thesis by (rule round_double_relative)
qed

lemma recomputed_event:
  assumes "e \<in> set (events (recompute_event_rating db eid))" and "event_id e = eid"
  shows "rating_count e = int (length (linked_reviews db eid))"
    and "rating_avg e = func_avg (map rating (linked_reviews db eid))"
proof -
  from assms(1) obtain e0 where e0: "e0 \<in> set (events db)"
    and e: "e = (if event_id e0 = eid
               then e0\<lparr>rating_avg := func_avg (map rating (linked_reviews db eid)),
                      rating_count := int (length (linked_reviews db eid))\<rparr> else e0)"
    unfolding events_recompute by auto
  have "event_id e0 = eid"
    using e assms(2) by (cases "event_id e0 = eid") simp_all
  with e show "rating_count e = int (length (linked_reviews db eid))"
    and "rating_avg e = func_avg (map rating (linked_reviews db eid))"
    by simp_all
qed

lemma aggregates_current_recompute: "aggregates_current (recompute_event_rating db eid) eid"
  unfolding aggregates_current_def
proof (intro ballI impI)
  fix e
  assume e: "e \<in> set (events (recompute_event_rating db eid))" and i: "event_id e = eid"
  let ?rs = "linked_reviews (recompute_event_rating db eid) eid"
  have rs: "?rs = linked_reviews db eid" by simp
  have cnt: "rating_count e = int (length ?rs)"
    and avg: "rating_avg e = func_avg (map rating ?rs)"
    unfolding rs using recomputed_event [OF e i] by simp_all
  have none: "rating_avg e = None \<longleftrightarrow> ?rs = []"
    unfolding avg by simp
  have near: "rating_avg e = Some (round_double (arithmetic_mean (map rating ?rs))) \<and>
           \<bar>round_double (arithmetic_mean (map rating ?rs)) - arithmetic_mean (map rating ?rs)\<bar>
             \<le> \<bar>arithmetic_mean (map rating ?rs)\<bar> / 2 ^ 53"
    if r: "?rs \<noteq> [] \<and> ratings_in_range (recompute_event_rating db eid) eid"
  proof
    from r have ne: "map rating ?rs \<noteq> []"
      and s: "\<bar>sum_list (map rating ?rs)\<bar> \<le> 2 ^ 53"
      and n: "int (length (map rating ?rs)) \<le> 2 ^ 53"
      by (simp_all add: ratings_in_range_def)
    show "rating_avg e = Some (round_double (arithmetic_mean (map rating ?rs)))"
      unfolding avg using ne s n by (rule func_avg_nearest)
    show "\<bar>round_double (arithmetic_mean (map rating ?rs)) - arithmetic_mean (map rating ?rs)\<bar>
             \<le> \<bar>arithmetic_mean (map rating ?rs)\<bar> / 2 ^ 53"
      using ne n by (rule arithmetic_mean_error)
  qed
  show "rating_count e = int (length ?rs) \<and> (rating_avg e = None \<longleftrightarrow> ?rs = []) \<and>
        (?rs \<noteq> [] \<and> ratings_in_range (recompute_event_rating db eid) eid \<longrightarrow>
           rating_avg e = Some (round_double (arithmetic_mean (map rating ?rs))) \<and>
           \<bar>round_double (arithmetic_mean (map rating ?rs)) - arithmetic_mean (map rating ?rs)\<bar>
             \<le> \<bar>arithmetic_mean (map rating ?rs)\<bar> / 2 ^ 53)"
    using cnt none near by blast
qed

lemma recompute_event_rating_idem:
  "recompute_event_rating (recompute_event_rating db eid) eid = recompute_event_rating db eid"
proof -
  define g where "g = (\<lambda>e::Event. if event_id e = eid
      then e\<lparr>rating_avg := func_avg (map rating (filter (\<lambda>r. review_event_id r = eid) (reviews db))),
             rating_count := func_count (map review_id (filter (\<lambda>r. review_event_id r = eid) (reviews db)))\<rparr>
      else e)"
  have r: "recompute_event_rating db eid = db\<lparr>events := map g (events db)\<rparr>"
    by (simp add: recompute_event_rating_def Let_def g_def)
  have r2: "recompute_event_rating (db\<lparr>events := map g (events db)\<rparr>) eid
              = db\<lparr>events := map g (map g (events db))\<rparr>"
    by (simp add: recompute_event_rating_def Let_def g_def)
  have "g \<circ> g = g"
    by (simp add: fun_eq_iff g_def)
  then show ?thesis unfolding r r2 by simp
qed

lemma create_review_eq:
  "create_review db eid bid stars cmt new_id now =
     (if review_exists db bid then (Inl (ValueError ''This booking already has a review.''), db)
      else if new_id \<in> set (map review_id (reviews db))
      then (Inl (IntegrityError ''review.id''), db)
      else (Inr \<lparr>review_id = new_id, review_event_id = eid, review_booking_id = bid,
                  rating = stars, comment = cmt, review_created_at = now\<rparr>,
            recompute_event_rating
              (db\<lparr>reviews := reviews db @
                 [\<lparr>review_id = new_id, review_event_id = eid, review_booking_id = bid,
                   rating = stars, comment = cmt, review_created_at = now\<rparr>]\<rparr>) eid))"
  by (simp add: create_review_def insert_review_def Let_def)

lemma update_review_event [simp]:
  "review_event_id (fst (update_review db review stars cmt)) = review_event_id review"
  by (simp add: update_review_def Let_def split: option.splits)

lemma update_review_snd:
  "\<exists>db'. snd (update_review db review stars cmt)
           = recompute_event_rating db' (review_event_id review)"
  by (auto simp: update_review_def Let_def split: option.splits)

lemma linked_reviews_filter:
  "linked_reviews (db\<lparr>reviews := filter P (reviews db)\<rparr>) eid = filter P (linked_reviews db eid)"
  by (auto simp: linked_reviews_def intro: filter_cong)

lemma delete_review_eq:
  "delete_review db r =
     recompute_event_rating
       (db\<lparr>reviews := filter (\<lambda>x. review_id x \<noteq> review_id r) (reviews db)\<rparr>)
       (review_event_id r)"
  by (simp add: delete_review_def Let_def)

lemma add_review_eq:
  "add_review db booking stars cmt new_id now =
     (if booking_status booking \<noteq> CONFIRMED
      then (Inl (HTTPException 400 ''Cannot review an unconfirmed booking.''), db)
      else if review_exists db (booking_id booking)
      then (Inl (HTTPException 409 ''This booking already has a review.''), db)
      else case booking_slot db booking of
             None \<Rightarrow> (Inl (AttributeError ''event_id''), db)
           | Some slot \<Rightarrow>
               if new_id \<in> set (map review_id (reviews db))
               then (Inl (IntegrityError ''review.id''), db)
               else (Inr \<lparr>review_id = new_id, review_event_id = slot_event_id slot,
                          review_booking_id = booking_id booking,
                          rating = stars, comment = cmt, review_created_at = now\<rparr>,
                     recompute_event_rating
                       (db\<lparr>reviews := reviews db @
                          [\<lparr>review_id = new_id, review_event_id = slot_event_id slot,
                            review_booking_id = booking_id booking,
                            rating = stars, comment = cmt, review_created_at = now\<rparr>]\<rparr>)
                       (slot_event_id slot)))"
  by (simp add: add_review_def create_review_eq split: option.splits)

text \<open>The definitions of the example sessions, for evaluation.\<close>

lemmas example_defs =
  db_reviewed_def db_event_def db_booked_def db_open_def db_cancelled_def slot_A_def
  booking_ann_def new_booking_def event_E_def review_ann_def db_two_reviews_def review_one_def

text \<open>The averages of the examples.\<close>

lemma func_avg_examples:
  "func_avg [4] = Some 4"
  "func_avg [2] = Some 2"
  "func_avg [1, 1, 2] = Some (6004799503160661 / 4503599627370496)"
  "func_avg [1, 1, 5] = Some (5254199565265579 / 2251799813685248)"
proof -
  have i: "round_double 1 = 1" "round_double 2 = 2" "round_double 3 = 3" "round_double 4 = 4"
    "round_double 7 = 7"
    using round_double_int [of 1] round_double_int [of 2] round_double_int [of 3]
      round_double_int [of 4] round_double_int [of 7]
    by simp_all
  have q: "round_double (4 / 3) = 6004799503160661 / 4503599627370496"
    by (subst round_double_binade [of 0]) (simp_all add: pow2_def py_round_eval)
  have r: "round_double (7 / 3) = 5254199565265579 / 2251799813685248"
    by (subst round_double_binade [of 1]) (simp_all add: pow2_def py_round_eval)
  show "func_avg [4] = Some 4" "func_avg [2] = Some 2"
    "func_avg [1, 1, 2] = Some (6004799503160661 / 4503599627370496)"
    "func_avg [1, 1, 5] = Some (5254199565265579 / 2251799813685248)"
    by (simp_all add: func_avg_def i q r)
qed

section \<open>Claims on the rating aggregator and the review guard\<close>

text \<open>Reading the aggregate of a session that holds the event once.\<close>

lemma aggregates_current_single:
  assumes "aggregates_current db eid" and "map event_id (events db) = [eid]"
    and "linked_reviews db eid \<noteq> []" and "ratings_in_range db eid"
  shows "map (\<lambda>e. (rating_avg e, rating_count e)) (events db)
           = [(Some (round_double (arithmetic_mean (map rating (linked_reviews db eid)))),
               int (length (linked_reviews db eid)))]"
proof -
  from assms(2) obtain e where e: "events db = [e]" and i: "event_id e = eid"
    by (cases "events db") auto
  from assms(1) e i have "rating_count e = int (length (linked_reviews db eid))"
    and "linked_reviews db eid \<noteq> [] \<and> ratings_in_range db eid \<longrightarrow>
           rating_avg e = Some (round_double (arithmetic_mean (map rating (linked_reviews db eid))))"
    by (simp_all add: aggregates_current_def)
  with assms(3,4) show ?thesis unfolding e by simp
qed

lemma aggregates_current_single_none:
  assumes "aggregates_current db eid" and "map event_id (events db) = [eid]"
    and "linked_reviews db eid = []"
  shows "map (\<lambda>e. (rating_avg e, rating_count e)) (events db) = [(None, 0)]"
proof -
  from assms(2) obtain e where e: "events db = [e]" and i: "event_id e = eid"
    by (cases "events db") auto
  from assms(1) e i have "rating_count e = int (length (linked_reviews db eid))"
    and "rating_avg e = None \<longleftrightarrow> linked_reviews db eid = []"
    by (simp_all add: aggregates_current_def)
  with assms(3) show ?thesis unfolding e by simp
qed

lemma arithmetic_mean_examples:
  "round_double (arithmetic_mean [1, 1, 5]) = 5254199565265579 / 2251799813685248"
  "round_double (arithmetic_mean [2]) = 2"
proof -
  have "round_double (7 / 3) = 5254199565265579 / 2251799813685248"
    by (subst round_double_binade [of 1]) (simp_all add: pow2_def py_round_eval)
  then show "round_double (arithmetic_mean [1, 1, 5]) = 5254199565265579 / 2251799813685248"
    by (simp add: arithmetic_mean_def)
  show "round_double (arithmetic_mean [2]) = 2"
    using round_double_int [of 2] by (simp add: arithmetic_mean_def)
qed

text \<open>
  Claim C6, as stated, fails: \<^verbatim>\<open>rating_avg\<close> is a float, and the average that the store
  computes is the double nearest to the arithmetic mean, not the mean. After the creation
  of a third review, of two stars, for an event with two reviews of one star, the mean of
  the ratings 1, 1, 2 is 4/3, which is no double, and \<^verbatim>\<open>rating_avg\<close> is
  6004799503160661 / 4503599627370496.
\<close>

theorem rating_avg_not_exact_mean_counterexample:
  "map rating (linked_reviews (snd (create_review db_two_reviews ''e1'' ''b3'' 2 None ''r3'' 60))
       ''e1'') = [1, 1, 2] \<and>
   map event_id (events (snd (create_review db_two_reviews ''e1'' ''b3'' 2 None ''r3'' 60)))
     = [''e1''] \<and>
   map rating_avg (events (snd (create_review db_two_reviews ''e1'' ''b3'' 2 None ''r3'' 60)))
     = [Some (6004799503160661 / 4503599627370496)] \<and>
   arithmetic_mean [1, 1, 2] = 4 / 3 \<and>
   Some (6004799503160661 / 4503599627370496) \<noteq> Some (arithmetic_mean [1, 1, 2])"
proof -
  have c: "snd (create_review db_two_reviews ''e1'' ''b3'' 2 None ''r3'' 60)
             = recompute_event_rating
                 (db_two_reviews\<lparr>reviews := reviews db_two_reviews @
                    [\<lparr>review_id = ''r3'', review_event_id = ''e1'', review_booking_id = ''b3'',
                      rating = 2, comment = None, review_created_at = 60\<rparr>]\<rparr>) ''e1''"
    by (simp add: create_review_eq review_exists_def example_defs)
  have m: "arithmetic_mean [1, 1, 2] = 4 / 3"
    by (simp add: arithmetic_mean_def)
  show ?thesis
    unfolding c m
    by (simp add: recompute_event_rating_def Let_def linked_reviews_def func_count_def
        func_avg_examples example_defs)
qed

text \<open>
  Claim C6, amended. After every review creation, update or deletion,
  \<^verbatim>\<open>recompute_event_rating\<close> leaves the event's \<^verbatim>\<open>rating_count\<close> equal to the number of the
  reviews currently linked to the event and, the sum and the number of their ratings being
  at most \<open>2^53\<close>, its \<^verbatim>\<open>rating_avg\<close> equal to the double nearest to the arithmetic mean of
  their ratings, which differs from the mean by at most the fraction \<open>2^-53\<close> of it; when
  the event has no reviews, as after deleting its only review, \<^verbatim>\<open>rating_avg\<close> is null and
  \<^verbatim>\<open>rating_count\<close> is 0; the recomputation is a function of the current reviews, and a
  repeated call changes nothing.
\<close>

theorem rating_aggregate_recomputed:
  "(\<forall>review db'. create_review db eid bid stars cmt new_id now = (Inr review, db') \<longrightarrow>
       reviews db' = reviews db @ [review] \<and> review_event_id review = eid \<and>
       aggregates_current db' eid) \<and>
   aggregates_current (snd (update_review db r stars' cmt')) (review_event_id r) \<and>
   reviews (delete_review db r) = filter (\<lambda>x. review_id x \<noteq> review_id r) (reviews db) \<and>
   aggregates_current (delete_review db r) (review_event_id r) \<and>
   (linked_reviews db (review_event_id r) = [r] \<longrightarrow>
      (\<forall>e \<in> set (events (delete_review db r)). event_id e = review_event_id r \<longrightarrow>
         rating_avg e = None \<and> rating_count e = 0)) \<and>
   aggregates_current (recompute_event_rating db eid) eid \<and>
   recompute_event_rating (recompute_event_rating db eid) eid = recompute_event_rating db eid"
proof (intro conjI allI impI)
  fix review db'
  assume c: "create_review db eid bid stars cmt new_id now = (Inr review, db')"
  then have db': "db' = recompute_event_rating (db\<lparr>reviews := reviews db @ [review]\<rparr>) eid"
    and rv: "review_event_id review = eid"
    by (auto simp: create_review_eq split: if_splits)
  show "reviews db' = reviews db @ [review]" unfolding db' by simp
  show "review_event_id review = eid" by (rule rv)
  show "aggregates_current db' eid" unfolding db' by (rule aggregates_current_recompute)
next
  show "aggregates_current (snd (update_review db r stars' cmt')) (review_event_id r)"
    using update_review_snd [of db r stars' cmt'] aggregates_current_recompute by auto
next
  show "reviews (delete_review db r) = filter (\<lambda>x. review_id x \<noteq> review_id r) (reviews db)"
    by (simp add: delete_review_eq)
next
  show d: "aggregates_current (delete_review db r) (review_event_id r)"
    unfolding delete_review_eq by (rule aggregates_current_recompute)
next
  assume only: "linked_reviews db (review_event_id r) = [r]"
  have "linked_reviews (delete_review db r) (review_event_id r) = []"
    unfolding delete_review_eq linked_reviews_recompute linked_reviews_filter only by simp
  moreover have "aggregates_current (delete_review db r) (review_event_id r)"
    unfolding delete_review_eq by (rule aggregates_current_recompute)
  ultimately show "\<forall>e \<in> set (events (delete_review db r)). event_id e = review_event_id r \<longrightarrow>
         rating_avg e = None \<and> rating_count e = 0"
    by (simp add: aggregates_current_def)
next
  show "aggregates_current (recompute_event_rating db eid) eid"
    by (rule aggregates_current_recompute)
next
  show "recompute_event_rating (recompute_event_rating db eid) eid = recompute_event_rating db eid"
    by (rule recompute_event_rating_idem)
qed

theorem rating_aggregate_recomputed_witness:
  "fst (create_review db_two_reviews ''e1'' ''b3'' 5 None ''r3'' 60)
     = Inr \<lparr>review_id = ''r3'', review_event_id = ''e1'', review_booking_id = ''b3'',
            rating = 5, comment = None, review_created_at = 60\<rparr> \<and>
   map (\<lambda>e. (rating_avg e, rating_count e))
       (events (snd (create_review db_two_reviews ''e1'' ''b3'' 5 None ''r3'' 60)))
     = [(Some (5254199565265579 / 2251799813685248), 3)] \<and>
   map (\<lambda>e. (rating_avg e, rating_count e))
       (events (snd (update_review db_reviewed review_ann (Some 2) None)))
     = [(Some 2, 1)] \<and>
   linked_reviews db_reviewed (review_event_id review_ann) = [review_ann] \<and>
   map (\<lambda>e. (rating_avg e, rating_count e)) (events (delete_review db_reviewed review_ann))
     = [(None, 0)]"
proof -
  let ?r3 = "\<lparr>review_id = ''r3'', review_event_id = ''e1'', review_booking_id = ''b3'',
              rating = 5, comment = None, review_created_at = 60\<rparr>"
  let ?created = "snd (create_review db_two_reviews ''e1'' ''b3'' 5 None ''r3'' 60)"
  let ?updated = "snd (update_review db_reviewed review_ann (Some 2) None)"
  let ?deleted = "delete_review db_reviewed review_ann"
  have c: "create_review db_two_reviews ''e1'' ''b3'' 5 None ''r3'' 60
             = (Inr ?r3, recompute_event_rating
                  (db_two_reviews\<lparr>reviews := reviews db_two_reviews @ [?r3]\<rparr>) ''e1'')"
    by (simp add: create_review_eq review_exists_def example_defs)
  have only: "linked_reviews db_reviewed (review_event_id review_ann) = [review_ann]"
    and eid: "review_event_id review_ann = ''e1''"
    by (simp_all add: linked_reviews_def example_defs)
  note t = rating_aggregate_recomputed [of db_two_reviews "''e1''" "''b3''" 5 None "''r3''" 60]
  note t' = rating_aggregate_recomputed [of db_reviewed "''e1''" "''b2''" 5 None "''r2''" 60
      review_ann "Some 2" None]
  have ids: "map event_id (events ?created) = [''e1'']"
    "map event_id (events ?updated) = [''e1'']"
    "map event_id (events ?deleted) = [''e1'']"
    unfolding c
    by (simp_all add: update_review_def delete_review_def recompute_event_rating_def Let_def
        example_defs)
  have linked: "linked_reviews ?created ''e1''
                  = [review_one ''r1'' ''b1'', review_one ''r2'' ''b2'', ?r3]"
    "linked_reviews ?updated ''e1'' = [review_ann\<lparr>rating := 2\<rparr>]"
    "linked_reviews ?deleted ''e1'' = []"
    unfolding c
    by (simp_all add: update_review_def delete_review_def linked_reviews_def
        recompute_event_rating_def Let_def example_defs)
  have range: "ratings_in_range ?created ''e1''" "ratings_in_range ?updated ''e1''"
    unfolding ratings_in_range_def linked by (simp_all add: review_one_def)
  have agg: "aggregates_current ?created ''e1''" "aggregates_current ?updated ''e1''"
    "aggregates_current ?deleted ''e1''"
    using t [THEN conjunct1, rule_format, OF c] t' [THEN conjunct2, THEN conjunct1]
      t' [THEN conjunct2, THEN conjunct2, THEN conjunct2, THEN conjunct1]
    unfolding c eid by simp_all
  have "map (\<lambda>e. (rating_avg e, rating_count e)) (events ?created)
          = [(Some (5254199565265579 / 2251799813685248), 3)]"
    using aggregates_current_single [OF agg(1) ids(1) _ range(1)]
    unfolding linked by (simp add: review_one_def arithmetic_mean_examples)
  moreover
  have "map (\<lambda>e. (rating_avg e, rating_count e)) (events ?updated) = [(Some 2, 1)]"
    using aggregates_current_single [OF agg(2) ids(2) _ range(2)]
    unfolding linked by (simp add: arithmetic_mean_examples)
  moreover
  have "map (\<lambda>e. (rating_avg e, rating_count e)) (events ?deleted) = [(None, 0)]"
    using agg(3) ids(3) linked(3) by (rule aggregates_current_single_none)
  ultimately show ?thesis using c only by simp
qed

text \<open>
  Claim C7. For every booking, \<^verbatim>\<open>add_review\<close> fails with BookingNotConfirmed when the
  booking's status is not CONFIRMED, fails with ReviewAlreadyExists when a review for that
  booking exists, and otherwise (the booking's slot being stored and the generated id new)
  persists exactly one review and has recomputed the rating of the slot's event when it
  returns.
\<close>

theorem add_review_guarded:
  "(booking_status booking \<noteq> CONFIRMED \<longrightarrow>
      add_review db booking stars cmt new_id now = (Inl BookingNotConfirmed, db)) \<and>
   (booking_status booking = CONFIRMED \<and> review_exists db (booking_id booking) \<longrightarrow>
      add_review db booking stars cmt new_id now = (Inl ReviewAlreadyExists, db)) \<and>
   (booking_status booking = CONFIRMED \<and> \<not> review_exists db (booking_id booking) \<and>
    booking_slot db booking = Some slot \<and> new_id \<notin> set (map review_id (reviews db)) \<longrightarrow>
      (\<exists>review.
         review = \<lparr>review_id = new_id, review_event_id = slot_event_id slot,
                   review_booking_id = booking_id booking,
                   rating = stars, comment = cmt, review_created_at = now\<rparr> \<and>
         add_review db booking stars cmt new_id now =
           (Inr review,
            recompute_event_rating (db\<lparr>reviews := reviews db @ [review]\<rparr>) (slot_event_id slot)) \<and>
         reviews (snd (add_review db booking stars cmt new_id now)) = reviews db @ [review] \<and>
         aggregates_current (snd (add_review db booking stars cmt new_id now))
           (slot_event_id slot)))"
proof (intro conjI impI)
  assume "booking_status booking \<noteq> CONFIRMED"
  then show "add_review db booking stars cmt new_id now = (Inl BookingNotConfirmed, db)"
    by (simp add: add_review_eq)
next
  assume "booking_status booking = CONFIRMED \<and> review_exists db (booking_id booking)"
  then show "add_review db booking stars cmt new_id now = (Inl ReviewAlreadyExists, db)"
    by (simp add: add_review_eq)
next
  let ?review = "\<lparr>review_id = new_id, review_event_id = slot_event_id slot,
                   review_booking_id = booking_id booking,
                   rating = stars, comment = cmt, review_created_at = now\<rparr>"
  assume "booking_status booking = CONFIRMED \<and> \<not> review_exists db (booking_id booking) \<and>
    booking_slot db booking = Some slot \<and> new_id \<notin> set (map review_id (reviews db))"
  then have eq: "add_review db booking stars cmt new_id now =
           (Inr ?review,
            recompute_event_rating (db\<lparr>reviews := reviews db @ [?review]\<rparr>) (slot_event_id slot))"
    by (simp add: add_review_eq)
  moreover have "reviews (snd (add_review db booking stars cmt new_id now)) = reviews db @ [?review]"
    unfolding eq by simp
  moreover have "aggregates_current (snd (add_review db booking stars cmt new_id now))
           (slot_event_id slot)"
    unfolding eq snd_conv by (rule aggregates_current_recompute)
  ultimately show "\<exists>review.
         review = ?review \<and>
         add_review db booking stars cmt new_id now =
           (Inr review,
            recompute_event_rating (db\<lparr>reviews := reviews db @ [review]\<rparr>) (slot_event_id slot)) \<and>
         reviews (snd (add_review db booking stars cmt new_id now)) = reviews db @ [review] \<and>
         aggregates_current (snd (add_review db booking stars cmt new_id now))
           (slot_event_id slot)"
    by blast
qed

theorem add_review_guarded_witness:
  "add_review db_event (booking_ann\<lparr>booking_status := CANCELLED\<rparr>) 4 None ''r1'' 50
     = (Inl BookingNotConfirmed, db_event) \<and>
   add_review db_reviewed booking_ann 5 None ''r2'' 60 = (Inl ReviewAlreadyExists, db_reviewed) \<and>
   add_review db_event booking_ann 4 None ''r1'' 50 = (Inr review_ann, db_reviewed) \<and>
   reviews db_reviewed = reviews db_event @ [review_ann] \<and>
   map (\<lambda>e. (rating_avg e, rating_count e)) (events db_reviewed) = [(Some 4, 1)]"
proof -
  have st: "booking_status (booking_ann\<lparr>booking_status := CANCELLED\<rparr>) \<noteq> CONFIRMED"
    "booking_status booking_ann = CONFIRMED"
    by (simp_all add: example_defs)
  have ex: "review_exists db_reviewed (booking_id booking_ann)"
    "\<not> review_exists db_event (booking_id booking_ann)"
    by (simp_all add: review_exists_def example_defs)
  have sl: "booking_slot db_event booking_ann = Some slot_A"
    and new: "''r1'' \<notin> set (map review_id (reviews db_event))"
    by (simp_all add: booking_slot_def example_defs)
  have rv: "\<lparr>review_id = ''r1'', review_event_id = slot_event_id slot_A,
             review_booking_id = booking_id booking_ann,
             rating = 4, comment = None, review_created_at = 50\<rparr> = review_ann"
    and db: "recompute_event_rating (db_event\<lparr>reviews := reviews db_event @ [review_ann]\<rparr>)
               (slot_event_id slot_A) = db_reviewed"
    and eid: "slot_event_id slot_A = ''e1''"
    by (simp_all add: recompute_event_rating_def Let_def func_avg_examples func_count_def
        example_defs)
  note a = add_review_guarded [where db = db_event and stars = 4 and cmt = None
      and new_id = "''r1''" and now = 50 and slot = slot_A
      and booking = "booking_ann\<lparr>booking_status := CANCELLED\<rparr>", THEN conjunct1, rule_format, OF st(1)]
  note b = add_review_guarded [where db = db_reviewed and stars = 5 and cmt = None
      and new_id = "''r2''" and now = 60 and slot = slot_A and booking = booking_ann,
      THEN conjunct2, THEN conjunct1, rule_format, OF conjI [OF st(2) ex(1)]]
  note c = add_review_guarded [where db = db_event and stars = 4 and cmt = None
      and new_id = "''r1''" and now = 50 and slot = slot_A and booking = booking_ann,
      THEN conjunct2, THEN conjunct2, rule_format,
      OF conjI [OF st(2) conjI [OF ex(2) conjI [OF sl new]]]]
  from c have "add_review db_event booking_ann 4 None ''r1'' 50 = (Inr review_ann, db_reviewed)"
    using db unfolding rv by auto
  moreover have "reviews db_reviewed = reviews db_event @ [review_ann]"
    by (simp add: example_defs)
  moreover have "map (\<lambda>e. (rating_avg e, rating_count e)) (events db_reviewed) = [(Some 4, 1)]"
    by (simp add: example_defs)
  ultimately show ?thesis using a b by simp
qed

section \<open>Properties of the currency converter\<close>

text \<open>The float literals of the examples.\<close>

lemma double_of_int:
  "\<bar>n\<bar> \<le> 2 ^ 53 \<Longrightarrow> double_of (of_int n) = Finite (of_int n)"
proof -
  assume n: "\<bar>n\<bar> \<le> 2 ^ 53"
  then have "\<bar>of_int n :: rat\<bar> \<le> of_int (2 ^ 53)"
    by (simp only: of_int_le_iff flip: of_int_abs)
  then have "\<bar>of_int n :: rat\<bar> < 2 ^ 1024" by simp
  then show ?thesis
    using round_double_int [OF n] by (simp add: double_of_def Let_def abs_less_iff)
qed

lemma double_of_literals:
  "double_of 1 = Finite 1"
  "double_of 9 = Finite 9"
  "double_of (9 / 10) = Finite (8106479329266893 / 9007199254740992)"
  "double_of (5455 / 100) = Finite (3838614994891571 / 70368744177664)"
proof -
  show "double_of 1 = Finite 1" using double_of_int [of 1] by simp
  show "double_of 9 = Finite 9" using double_of_int [of 9] by simp
  have "round_double (9 / 10) = 8106479329266893 / 9007199254740992"
    by (subst round_double_binade [of "- 1"]) (simp_all add: pow2_def py_round_eval)
  then show "double_of (9 / 10) = Finite (8106479329266893 / 9007199254740992)"
    by (simp add: double_of_def)
  have "round_double (5455 / 100) = 3838614994891571 / 70368744177664"
    by (subst round_double_binade [of 5]) (simp_all add: pow2_def py_round_eval)
  then show "double_of (5455 / 100) = Finite (3838614994891571 / 70368744177664)"
    by (simp add: double_of_def)
qed

text \<open>The conversion of a finite rate pair, when nothing overflows.\<close>

lemma convert_minor_finite:
  assumes "from_currency \<noteq> to_currency"
    and "rates to_currency = Some (Finite rate_to)"
    and "rates from_currency = Some (Finite rate_from)"
    and "rate_from \<noteq> 0"
    and q: "\<bar>round_double (rate_to / rate_from)\<bar> < 2 ^ 1024"
    and a: "\<bar>round_double (of_int amount)\<bar> < 2 ^ 1024"
    and p: "\<bar>round_double (round_double (of_int amount) * round_double (rate_to / rate_from))\<bar>
             < 2 ^ 1024"
  shows "convert_minor amount from_currency to_currency rates =
           Inr (py_round (round_double
                  (round_double (of_int amount) * round_double (rate_to / rate_from))))"
proof -
  have d: "float_truediv (Finite rate_to) (Finite rate_from)
             = Inr (Finite (round_double (rate_to / rate_from)))"
    using assms(4) q by (simp add: float_truediv_def double_of_def Let_def abs_less_iff)
  have c: "int_to_float amount = Inr (Finite (round_double (of_int amount)))"
    using a by (simp add: int_to_float_def double_of_def Let_def abs_less_iff)
  have m: "int_mul_float amount (Finite (round_double (rate_to / rate_from)))
             = Inr (Finite (round_double
                  (round_double (of_int amount) * round_double (rate_to / rate_from))))"
    using p by (simp add: int_mul_float_def c double_of_def Let_def abs_less_iff)
  show ?thesis
    using assms(1-3) by (simp add: convert_minor_def d m)
qed

lemma convert_usd_eur:
  "convert_minor 4500 ''USD'' ''EUR'' [''USD'' \<mapsto> double_of 1, ''EUR'' \<mapsto> double_of (9 / 10)]
     = Inr 4050"
proof -
  have q: "round_double (8106479329266893 / 9007199254740992 / 1)
             = 8106479329266893 / 9007199254740992"
    by (subst round_double_binade [of "- 1"]) (simp_all add: pow2_def py_round_eval)
  have a: "round_double (of_int 4500) = 4500"
    using round_double_int [of 4500] by simp
  have p: "round_double (4500 * (8106479329266893 / 9007199254740992)) = 4050"
    by (subst round_double_binade [of 11]) (simp_all add: pow2_def py_round_eval)
  have "convert_minor 4500 ''USD'' ''EUR''
          [''USD'' \<mapsto> Finite 1, ''EUR'' \<mapsto> Finite (8106479329266893 / 9007199254740992)]
        = Inr (py_round (round_double (round_double (of_int 4500)
                * round_double (8106479329266893 / 9007199254740992 / 1))))"
  proof (rule convert_minor_finite)
    show "\<bar>round_double (8106479329266893 / 9007199254740992 / 1)\<bar> < 2 ^ 1024"
      unfolding q by simp
    show "\<bar>round_double (of_int 4500)\<bar> < 2 ^ 1024"
      unfolding a by simp
    show "\<bar>round_double (round_double (of_int 4500)
            * round_double (8106479329266893 / 9007199254740992 / 1))\<bar> < 2 ^ 1024"
      unfolding q a p by simp
  qed simp_all
  then show ?thesis
    unfolding double_of_literals q a p using py_round_of_int [of 4050] by simp
qed

text \<open>
  Claim C9, as stated, fails: the quotient and the product are rounded to floats before
  \<^verbatim>\<open>round\<close> is applied, so the result need not be the integer nearest to
  \<^verbatim>\<open>amount_minor * rates[to] / rates[from]\<close>. With the rates 9.0 and 54.55, the amount 752130
  converts to 4558744, while the product with the quotient of the two rates lies below
  4558743.5; with two rates 1.0, the amount \<open>2^53 + 1\<close> converts to \<open>2^53\<close>. And for two
  currencies in the table the call raises \<^verbatim>\<open>ZeroDivisionError\<close> when the source rate is zero.
\<close>

theorem convert_minor_float_rounding_counterexample:
  "double_of 9 = Finite 9 \<and>
   double_of (5455 / 100) = Finite (3838614994891571 / 70368744177664) \<and>
   convert_minor 752130 ''NOK'' ''PHP''
     [''NOK'' \<mapsto> double_of 9, ''PHP'' \<mapsto> double_of (5455 / 100)] = Inr 4558744 \<and>
   \<not> \<bar>of_int 4558744 - of_int 752130 * (3838614994891571 / 70368744177664) / 9\<bar> \<le> (1 / 2 :: rat) \<and>
   convert_minor (2 ^ 53 + 1) ''USD'' ''PAB''
     [''USD'' \<mapsto> double_of 1, ''PAB'' \<mapsto> double_of 1] = Inr (2 ^ 53) \<and>
   convert_minor 4500 ''XXX'' ''USD'' [''USD'' \<mapsto> double_of 1, ''XXX'' \<mapsto> Finite 0]
     = Inl ZeroDivisionError"
proof (intro conjI)
  show "double_of 9 = Finite 9"
    and "double_of (5455 / 100) = Finite (3838614994891571 / 70368744177664)"
    by (rule double_of_literals)+
  have q: "round_double (3838614994891571 / 70368744177664 / 9)
             = 6824204435362793 / 1125899906842624"
    by (subst round_double_binade [of 2]) (simp_all add: pow2_def py_round_eval)
  have a: "round_double (of_int 752130) = 752130"
    using round_double_int [of 752130] by simp
  have p: "round_double (752130 * (6824204435362793 / 1125899906842624))
             = 9117487 / 2"
    by (subst round_double_binade [of 22]) (simp_all add: pow2_def py_round_eval)
  have "convert_minor 752130 ''NOK'' ''PHP''
          [''NOK'' \<mapsto> Finite 9, ''PHP'' \<mapsto> Finite (3838614994891571 / 70368744177664)]
        = Inr (py_round (round_double (round_double (of_int 752130)
                * round_double (3838614994891571 / 70368744177664 / 9))))"
  proof (rule convert_minor_finite)
    show "\<bar>round_double (3838614994891571 / 70368744177664 / 9)\<bar> < 2 ^ 1024"
      unfolding q by simp
    show "\<bar>round_double (of_int 752130)\<bar> < 2 ^ 1024"
      unfolding a by simp
    show "\<bar>round_double (round_double (of_int 752130)
            * round_double (3838614994891571 / 70368744177664 / 9))\<bar> < 2 ^ 1024"
      unfolding q a p by simp
  qed simp_all
  then show "convert_minor 752130 ''NOK'' ''PHP''
     [''NOK'' \<mapsto> double_of 9, ''PHP'' \<mapsto> double_of (5455 / 100)] = Inr 4558744"
    unfolding double_of_literals q a p by (simp add: py_round_eval)
  show "\<not> \<bar>of_int 4558744 - of_int 752130 * (3838614994891571 / 70368744177664) / 9\<bar>
          \<le> (1 / 2 :: rat)"
    by simp
  have q1: "round_double (1 / 1) = 1"
    using round_double_int [of 1] by simp
  have a1: "round_double (of_int (2 ^ 53 + 1)) = 2 ^ 53"
    by (subst round_double_binade [of 53]) (simp_all add: pow2_def py_round_eval)
  have p1: "round_double (2 ^ 53 * 1) = 2 ^ 53"
    using round_double_int [of "2 ^ 53"] by simp
  have "convert_minor (2 ^ 53 + 1) ''USD'' ''PAB'' [''USD'' \<mapsto> Finite 1, ''PAB'' \<mapsto> Finite 1]
        = Inr (py_round (round_double (round_double (of_int (2 ^ 53 + 1))
                * round_double (1 / 1))))"
  proof (rule convert_minor_finite)
    show "\<bar>round_double (1 / 1)\<bar> < 2 ^ 1024"
      unfolding q1 by simp
    show "\<bar>round_double (of_int (2 ^ 53 + 1))\<bar> < 2 ^ 1024"
      unfolding a1 by simp
    show "\<bar>round_double (round_double (of_int (2 ^ 53 + 1)) * round_double (1 / 1))\<bar>
            < 2 ^ 1024"
      unfolding q1 a1 p1 by simp
  qed simp_all
  then show "convert_minor (2 ^ 53 + 1) ''USD'' ''PAB''
     [''USD'' \<mapsto> double_of 1, ''PAB'' \<mapsto> double_of 1] = Inr (2 ^ 53)"
    unfolding double_of_literals q1 a1 p1 using py_round_of_int [of "2 ^ 53"] by simp
  show "convert_minor 4500 ''XXX'' ''USD'' [''USD'' \<mapsto> double_of 1, ''XXX'' \<mapsto> Finite 0]
     = Inl ZeroDivisionError"
    by (simp add: convert_minor_def float_truediv_def)
qed

text \<open>
  Claim C9, amended. \<^verbatim>\<open>convert_minor\<close> returns the amount unchanged whenever the two
  currencies are equal, for any rate table. For distinct currencies both present in the
  table with finite rates, the source rate not zero, and no float overflow, it returns the
  integer nearest (a tie to the even one) to the float product of the amount with the float
  quotient \<^verbatim>\<open>rates[to] / rates[from]\<close>, each of the conversion of the amount, the quotient and
  the product rounded to the nearest float; for a non-zero amount of at most \<open>2^53\<close> in
  magnitude and a quotient in the normal range, the result differs from
  \<^verbatim>\<open>amount_minor * rates[to] / rates[from]\<close> by at most 1/2 plus the fraction
  \<open>2^-52 + 2^-106\<close> of that product. So
  \<^verbatim>\<open>convert_minor(4500, "USD", "EUR", {"USD": 1.0, "EUR": 0.9})\<close> is 4050. For distinct
  currencies it raises \<^verbatim>\<open>ZeroDivisionError\<close> when the source rate is zero, and it fails with
  the MissingRate error whenever either currency is absent from the table.
\<close>

theorem convert_minor_spec:
  "(from_currency = to_currency \<longrightarrow>
      convert_minor amount from_currency to_currency rates = Inr amount) \<and>
   (from_currency \<noteq> to_currency \<and> rates to_currency = Some (Finite rate_to) \<and>
    rates from_currency = Some (Finite rate_from) \<and> rate_from \<noteq> 0 \<and>
    \<bar>round_double (rate_to / rate_from)\<bar> < 2 ^ 1024 \<and>
    \<bar>round_double (of_int amount)\<bar> < 2 ^ 1024 \<and>
    \<bar>round_double (round_double (of_int amount) * round_double (rate_to / rate_from))\<bar>
      < 2 ^ 1024 \<longrightarrow>
      (\<exists>r. convert_minor amount from_currency to_currency rates = Inr r \<and>
           r = py_round (round_double
                 (round_double (of_int amount) * round_double (rate_to / rate_from))) \<and>
           \<bar>of_int r - round_double
                 (round_double (of_int amount) * round_double (rate_to / rate_from))\<bar> \<le> 1 / 2 \<and>
           (amount \<noteq> 0 \<and> \<bar>amount\<bar> \<le> 2 ^ 53 \<and> pow2 (- 1022) \<le> \<bar>rate_to / rate_from\<bar> \<longrightarrow>
              \<bar>of_int r - of_int amount * rate_to / rate_from\<bar>
                \<le> 1 / 2 + \<bar>of_int amount * rate_to / rate_from\<bar> * (2 / 2 ^ 53 + 1 / 2 ^ 106)))) \<and>
   (from_currency \<noteq> to_currency \<and> rates to_currency = Some rate \<and>
    rates from_currency = Some (Finite 0) \<longrightarrow>
      convert_minor amount from_currency to_currency rates = Inl ZeroDivisionError) \<and>
   convert_minor 4500 ''USD'' ''EUR'' [''USD'' \<mapsto> double_of 1, ''EUR'' \<mapsto> double_of (9 / 10)]
     = Inr 4050 \<and>
   (from_currency \<noteq> to_currency \<and> rates to_currency = None \<longrightarrow>
      convert_minor amount from_currency to_currency rates = Inl (MissingRate to_currency)) \<and>
   (from_currency \<noteq> to_currency \<and> rates to_currency \<noteq> None \<and> rates from_currency = None \<longrightarrow>
      convert_minor amount from_currency to_currency rates = Inl (MissingRate from_currency))"
proof (intro conjI impI)
  assume "from_currency = to_currency"
  then show "convert_minor amount from_currency to_currency rates = Inr amount"
    by (simp add: convert_minor_def)
next
  let ?q = "round_double (rate_to / rate_from)"
  let ?p = "round_double (round_double (of_int amount) * ?q)"
  assume h: "from_currency \<noteq> to_currency \<and> rates to_currency = Some (Finite rate_to) \<and>
    rates from_currency = Some (Finite rate_from) \<and> rate_from \<noteq> 0 \<and>
    \<bar>?q\<bar> < 2 ^ 1024 \<and> \<bar>round_double (of_int amount)\<bar> < 2 ^ 1024 \<and> \<bar>?p\<bar> < 2 ^ 1024"
  then have eq: "convert_minor amount from_currency to_currency rates = Inr (py_round ?p)"
    by (intro convert_minor_finite) simp_all
  have near: "\<bar>of_int (py_round ?p) - ?p\<bar> \<le> 1 / 2"
    by (rule py_round_nearest)
  have bound: "\<bar>of_int (py_round ?p) - of_int amount * rate_to / rate_from\<bar>
                \<le> 1 / 2 + \<bar>of_int amount * rate_to / rate_from\<bar> * (2 / 2 ^ 53 + 1 / 2 ^ 106)"
    if a: "amount \<noteq> 0 \<and> \<bar>amount\<bar> \<le> 2 ^ 53 \<and> pow2 (- 1022) \<le> \<bar>rate_to / rate_from\<bar>"
  proof -
    from a have exact: "round_double (of_int amount) = of_int amount"
      by (simp add: round_double_int)
    from a have "\<bar>round_double (of_int amount * ?q) - of_int amount * (rate_to / rate_from)\<bar>
           \<le> \<bar>of_int amount * (rate_to / rate_from)\<bar> * (2 / 2 ^ 53 + 1 / 2 ^ 106)"
      by (intro round_double_product_error) simp_all
    then have "\<bar>?p - of_int amount * rate_to / rate_from\<bar>
           \<le> \<bar>of_int amount * rate_to / rate_from\<bar> * (2 / 2 ^ 53 + 1 / 2 ^ 106)"
      unfolding exact by simp
    with near show ?thesis by linarith
  qed
  show "\<exists>r. convert_minor amount from_currency to_currency rates = Inr r \<and>
           r = py_round ?p \<and> \<bar>of_int r - ?p\<bar> \<le> 1 / 2 \<and>
           (amount \<noteq> 0 \<and> \<bar>amount\<bar> \<le> 2 ^ 53 \<and> pow2 (- 1022) \<le> \<bar>rate_to / rate_from\<bar> \<longrightarrow>
              \<bar>of_int r - of_int amount * rate_to / rate_from\<bar>
                \<le> 1 / 2 + \<bar>of_int amount * rate_to / rate_from\<bar> * (2 / 2 ^ 53 + 1 / 2 ^ 106))"
    using eq near bound by blast
next
  assume "from_currency \<noteq> to_currency \<and> rates to_currency = Some rate \<and>
    rates from_currency = Some (Finite 0)"
  then show "convert_minor amount from_currency to_currency rates = Inl ZeroDivisionError"
    by (simp add: convert_minor_def float_truediv_def)
next
  show "convert_minor 4500 ''USD'' ''EUR'' [''USD'' \<mapsto> double_of 1, ''EUR'' \<mapsto> double_of (9 / 10)]
     = Inr 4050"
    by (rule convert_usd_eur)
next
  assume "from_currency \<noteq> to_currency \<and> rates to_currency = None"
  then show "convert_minor amount from_currency to_currency rates = Inl (MissingRate to_currency)"
    by (simp add: convert_minor_def)
next
  assume "from_currency \<noteq> to_currency \<and> rates to_currency \<noteq> None \<and> rates from_currency = None"
  then show "convert_minor amount from_currency to_currency rates
               = Inl (MissingRate from_currency)"
    by (auto simp: convert_minor_def)
qed

theorem convert_minor_spec_witness:
  "convert_minor 4500 ''USD'' ''USD'' Map.empty = Inr 4500 \<and>
   convert_minor 1999 ''USD'' ''INR'' [''USD'' \<mapsto> Finite 1, ''INR'' \<mapsto> Finite (167 / 2)]
     = Inr 166916 \<and>
   \<bar>of_int 166916 - of_int 1999 * (167 / 2) / (1 :: rat)\<bar>
     \<le> 1 / 2 + \<bar>of_int 1999 * (167 / 2) / 1\<bar> * (2 / 2 ^ 53 + 1 / 2 ^ 106) \<and>
   convert_minor 100 ''XXX'' ''USD'' [''USD'' \<mapsto> Finite 1, ''XXX'' \<mapsto> Finite 0]
     = Inl ZeroDivisionError \<and>
   convert_minor 100 ''USD'' ''EUR'' [''USD'' \<mapsto> Finite 1] = Inl (MissingRate ''EUR'') \<and>
   convert_minor 100 ''INR'' ''USD'' [''USD'' \<mapsto> Finite 1] = Inl (MissingRate ''INR'')"
proof -
  let ?rates = "[''USD'' \<mapsto> Finite 1, ''INR'' \<mapsto> Finite (167 / 2)]"
  have q: "round_double (167 / 2 / 1) = 167 / 2"
    by (subst round_double_binade [of 6]) (simp_all add: pow2_def py_round_eval)
  have a: "round_double (of_int 1999) = 1999"
    using round_double_int [of 1999] by simp
  have p: "round_double (1999 * (167 / 2)) = 333833 / 2"
    by (subst round_double_binade [of 17]) (simp_all add: pow2_def py_round_eval)
  have r: "py_round (333833 / 2) = 166916"
    by (simp add: py_round_eval)
  have h: "''USD'' \<noteq> ''INR'' \<and> ?rates ''INR'' = Some (Finite (167 / 2)) \<and>
           ?rates ''USD'' = Some (Finite 1) \<and> (1 :: rat) \<noteq> 0 \<and>
           \<bar>round_double (167 / 2 / 1)\<bar> < 2 ^ 1024 \<and>
           \<bar>round_double (of_int 1999)\<bar> < 2 ^ 1024 \<and>
           \<bar>round_double (round_double (of_int 1999) * round_double (167 / 2 / 1))\<bar> < 2 ^ 1024"
    unfolding q a p by simp
  have n: "(1999 :: int) \<noteq> 0 \<and> \<bar>1999 :: int\<bar> \<le> 2 ^ 53 \<and> pow2 (- 1022) \<le> \<bar>167 / 2 / 1 :: rat\<bar>"
    by (simp add: pow2_def)
  have z: "''XXX'' \<noteq> ''USD'' \<and>
           [''USD'' \<mapsto> Finite 1, ''XXX'' \<mapsto> Finite 0] ''USD'' = Some (Finite 1) \<and>
           [''USD'' \<mapsto> Finite 1, ''XXX'' \<mapsto> Finite 0] ''XXX'' = Some (Finite 0)"
    by simp
  have b: "''USD'' \<noteq> ''EUR'' \<and> [''USD'' \<mapsto> Finite 1] ''EUR'' = None"
    by simp
  have c: "''INR'' \<noteq> ''USD'' \<and> [''USD'' \<mapsto> Finite 1] ''USD'' \<noteq> None \<and>
           [''USD'' \<mapsto> Finite 1] ''INR'' = None"
    by simp
  note t1 = convert_minor_spec [of "''USD''" "''USD''" 4500 Map.empty,
      THEN conjunct1, rule_format, OF refl]
  note t2 = convert_minor_spec [of "''USD''" "''INR''" 1999 ?rates "167 / 2" 1,
      THEN conjunct2, THEN conjunct1, rule_format, OF h]
  note t3 = convert_minor_spec [of "''XXX''" "''USD''" 100
      "[''USD'' \<mapsto> Finite 1, ''XXX'' \<mapsto> Finite 0]" _ _ "Finite 1",
      THEN conjunct2, THEN conjunct2, THEN conjunct1, rule_format, OF z]
  note t4 = convert_minor_spec [of "''USD''" "''EUR''" 100 "[''USD'' \<mapsto> Finite 1]",
      THEN conjunct2, THEN conjunct2, THEN conjunct2, THEN conjunct2, THEN conjunct1,
      rule_format, OF b]
  note t5 = convert_minor_spec [of "''INR''" "''USD''" 100 "[''USD'' \<mapsto> Finite 1]",
      THEN conjunct2, THEN conjunct2, THEN conjunct2, THEN conjunct2, THEN conjunct2,
      rule_format, OF c]
  from t2 obtain r where r2: "convert_minor 1999 ''USD'' ''INR'' ?rates = Inr r"
    and rv: "r = py_round (round_double (round_double (of_int 1999) * round_double (167 / 2 / 1)))"
    and rb: "(1999 :: int) \<noteq> 0 \<and> \<bar>1999 :: int\<bar> \<le> 2 ^ 53 \<and> pow2 (- 1022) \<le> \<bar>167 / 2 / 1 :: rat\<bar> \<longrightarrow>
             \<bar>of_int r - of_int 1999 * (167 / 2) / (1 :: rat)\<bar>
               \<le> 1 / 2 + \<bar>of_int 1999 * (167 / 2) / 1\<bar> * (2 / 2 ^ 53 + 1 / 2 ^ 106)"
    by blast
  have "r = 166916" unfolding rv q a p r ..
  with r2 rb n t1 t3 t4 t5 show ?thesis by blast
qed

section \<open>Properties of the imports and of name resolution in the event listing\<close>

text \<open>Which files of \<^verbatim>\<open>app/services\<close> compile.\<close>

lemma services_compile:
  "compiles services_init" "compiles services_email" "compiles services_calendar"
  "\<not> compiles services_review" "compiles (drop 2 services_review)"
  "compiles services_fx" "compiles services_search"
  by (simp_all add: compiles_def services_init_def services_email_def services_calendar_def
      services_review_def services_fx_def services_search_def)

lemma import_names_ok:
  assumes "map_of (modules pkg) m = Some body" and "compiles body"
    and "set ns \<subseteq> set (module_globals body)"
  shows "import_names pkg m ns = Inr ns"
proof -
  from assms(3) have "filter (\<lambda>n. n \<notin> set (module_globals body)) ns = []"
    by (auto simp: filter_empty_conv)
  then show ?thesis
    using assms(1,2) by (simp add: import_names_def load_module_def)
qed

lemma import_names_syntax_error:
  assumes "map_of (modules pkg) m = Some body" and "\<not> compiles body"
  shows "import_names pkg m ns
           = Inl (SyntaxError ''from __future__ imports must occur at the beginning of the file'')"
  using assms by (simp add: import_names_def load_module_def)

lemma services_exports:
  "set [''send_email_plain''] \<subseteq> set (module_globals services_email)"
  "set [''generate_ics_bytes'', ''write_ics_to_storage'', ''google_calendar_link'']
     \<subseteq> set (module_globals services_calendar)"
  "set [''add_review'', ''edit_review'', ''remove_review'', ''event_reviews'']
     \<subseteq> set (module_globals (drop 2 services_review))"
  "set [''get_rates'', ''convert_minor''] \<subseteq> set (module_globals services_fx)"
  "set [''build_event_query''] \<subseteq> set (module_globals services_search)"
  by (simp_all add: module_globals_def services_email_def services_calendar_def
      services_review_def services_fx_def services_search_def)

text \<open>
  The package as it is cannot be imported: \<^verbatim>\<open>__init__.py\<close> imports \<^verbatim>\<open>review\<close>, which does not
  compile. So no module of the package can be imported either.
\<close>

lemma import_package_app_services:
  "import_package app_services
     = Inl (SyntaxError ''from __future__ imports must occur at the beginning of the file'')"
proof -
  have m: "map_of (modules app_services) ''email'' = Some services_email"
    "map_of (modules app_services) ''calendar'' = Some services_calendar"
    "map_of (modules app_services) ''review'' = Some services_review"
    by (simp_all add: app_services_def)
  have i: "init app_services = services_init"
    by (simp add: app_services_def)
  note e = import_names_ok [OF m(1) services_compile(2) services_exports(1)]
    import_names_ok [OF m(2) services_compile(3) services_exports(2)]
    import_names_syntax_error [OF m(3) services_compile(4)]
  show ?thesis
    unfolding import_package_def i
    by (simp add: services_compile(1)) (simp add: services_init_def e)
qed

lemma import_from_app_services:
  "import_from app_services m ns
     = Inl (SyntaxError ''from __future__ imports must occur at the beginning of the file'')"
  by (simp add: import_from_def import_package_app_services)

lemma import_package_repaired: "import_package repaired_services = Inr ()"
proof -
  have m: "map_of (modules repaired_services) ''email'' = Some services_email"
    "map_of (modules repaired_services) ''calendar'' = Some services_calendar"
    "map_of (modules repaired_services) ''review'' = Some (drop 2 services_review)"
    "map_of (modules repaired_services) ''fx'' = Some services_fx"
    by (simp_all add: repaired_services_def)
  have i: "init repaired_services = services_init"
    by (simp add: repaired_services_def app_services_def)
  note e = import_names_ok [OF m(1) services_compile(2) services_exports(1)]
    import_names_ok [OF m(2) services_compile(3) services_exports(2)]
    import_names_ok [OF m(3) services_compile(5) services_exports(3)]
    import_names_ok [OF m(4) services_compile(6) services_exports(4)]
  show ?thesis
    unfolding import_package_def i
    by (simp add: services_compile(1)) (simp add: services_init_def e)
qed

lemma import_from_repaired:
  "import_from repaired_services ''search'' [''build_event_query''] = Inr [''build_event_query'']"
proof -
  have "map_of (modules repaired_services) ''search'' = Some services_search"
    by (simp add: repaired_services_def)
  from import_names_ok [OF this services_compile(7) services_exports(5)]
  show ?thesis
    by (simp add: import_from_def import_package_repaired)
qed

text \<open>The names at issue, in the globals of \<^verbatim>\<open>crud/events.py\<close> and among the builtins.\<close>

lemma crud_events_globals:
  "module_globals crud_events =
     [''annotations'', ''datetime'', ''List'', ''Optional'', ''Sequence'', ''Tuple'',
      ''and_'', ''desc'', ''func'', ''select'', ''text'', ''joinedload'', ''selectinload'',
      ''Session'', ''Booking'', ''Event'', ''Review'', ''Slot'',
      ''create_event'', ''get_event'', ''list_events'', ''update_event'', ''delete_event'',
      ''recompute_event_rating'']"
  by (simp add: module_globals_def crud_events_def)

lemma unbound_names:
  "''EventFilter'' \<notin> set (module_globals crud_events) \<union> set python_builtins"
  "''timedelta'' \<notin> set (module_globals crud_events) \<union> set python_builtins"
  by (simp_all add: crud_events_globals python_builtins_def)

text \<open>The body of \<^verbatim>\<open>list_events\<close> up to the read of \<^verbatim>\<open>EventFilter\<close>.\<close>

lemma list_events_body_prefix:
  "list_events_body sort_option
     = Load ''select'' # Load ''Event'' # Store ''stmt''
       # LocalImport ''search'' [''build_event_query'']
       # Load ''build_event_query'' # Load ''session'' # Load ''EventFilter''
       # drop 7 (list_events_body sort_option)"
  by (simp add: list_events_body_def)

lemma import_from_bound: "import_from pkg m ns = Inr bound \<Longrightarrow> bound = ns"
  by (auto simp: import_from_def import_names_def split: sum.splits option.splits list.splits)

lemma list_events_in_eq:
  "list_events_in pkg db page page_size search category_filter price_min price_max sort_option =
     (case import_from pkg ''search'' [''build_event_query''] of
        Inl e \<Rightarrow> Inl e
      | Inr bound \<Rightarrow> Inl (NameError ''EventFilter''))"
proof (cases "import_from pkg ''search'' [''build_event_query'']")
  case (Inl e)
  then show ?thesis
    unfolding list_events_in_def
    by (subst list_events_body_prefix) (simp add: crud_events_globals)
next
  case (Inr bound)
  then have b: "bound = [''build_event_query'']" by (rule import_from_bound)
  have "''EventFilter'' \<notin> set (module_globals crud_events)"
    "''EventFilter'' \<notin> set python_builtins"
    using unbound_names(1) by simp_all
  then show ?thesis
    unfolding list_events_in_def
    by (subst list_events_body_prefix) (simp add: Inr b crud_events_globals)
qed

text \<open>The names that \<^verbatim>\<open>build_event_query\<close> reads resolve in \<^verbatim>\<open>services/search.py\<close>.\<close>

lemma load_names_ok_iff:
  "load_names globals ns = Inr () \<longleftrightarrow>
     (\<forall>n \<in> set ns. n \<in> set globals \<or> n \<in> set python_builtins)"
  by (induction ns) auto

lemma services_search_names:
  "''select'' \<in> set (module_globals services_search)"
  "''Event'' \<in> set (module_globals services_search)"
  "''or_'' \<in> set (module_globals services_search)"
  "''func'' \<in> set (module_globals services_search)"
  "''_apply_sort'' \<in> set (module_globals services_search)"
  "''datetime'' \<in> set (module_globals services_search)"
  "''timedelta'' \<in> set (module_globals services_search)"
  "''Slot'' \<in> set (module_globals services_search)"
  "''Booking'' \<in> set (module_globals services_search)"
  by (simp_all add: module_globals_def services_search_def)

lemma builtin_names:
  "''isinstance'' \<in> set python_builtins" "''str'' \<in> set python_builtins"
  by (simp_all add: python_builtins_def)

lemma build_event_query_names:
  "load_names (module_globals services_search)
     (build_event_query_reads search category_filter price_min price_max sort_option) = Inr ()"
  unfolding load_names_ok_iff
  by (auto simp: build_event_query_reads_def apply_sort_reads_def services_search_names
      builtin_names)

text \<open>
  Claim C10 says that every call of \<^verbatim>\<open>crud.events.list_events\<close> raises a \<^verbatim>\<open>NameError\<close>, the
  names \<^verbatim>\<open>EventFilter\<close> and \<^verbatim>\<open>timedelta\<close> being bound nowhere in the module, and that the
  listing works through \<^verbatim>\<open>services.search.build_event_query\<close>. For every combination of
  arguments the call raises before producing any result, but what it raises is the
  \<^verbatim>\<open>SyntaxError\<close> of the import that precedes the read of \<^verbatim>\<open>EventFilter\<close>: importing
  \<^verbatim>\<open>app.services.search\<close> imports the package \<^verbatim>\<open>app.services\<close>, whose \<^verbatim>\<open>__init__.py\<close> imports
  \<^verbatim>\<open>services/review.py\<close>, where two statements precede the \<^verbatim>\<open>from __future__\<close> import. For the
  same reason \<^verbatim>\<open>build_event_query\<close> cannot be imported. Neither \<^verbatim>\<open>EventFilter\<close> nor
  \<^verbatim>\<open>timedelta\<close> is a global of the module or a builtin, and the branch for the popularity
  sort reads \<^verbatim>\<open>timedelta\<close>. Without the two stray statements the claim holds: the call raises
  the \<^verbatim>\<open>NameError\<close> of \<^verbatim>\<open>EventFilter\<close>, \<^verbatim>\<open>build_event_query\<close> is imported and the names it reads
  all resolve in its module.
\<close>

theorem list_events_raises_syntax_error:
  "list_events db page page_size search category_filter price_min price_max sort_option
     = Inl (SyntaxError ''from __future__ imports must occur at the beginning of the file'') \<and>
   import_from app_services ''search'' [''build_event_query'']
     = Inl (SyntaxError ''from __future__ imports must occur at the beginning of the file'') \<and>
   ''EventFilter'' \<notin> set (module_globals crud_events) \<union> set python_builtins \<and>
   ''timedelta'' \<notin> set (module_globals crud_events) \<union> set python_builtins \<and>
   Load ''timedelta'' \<in> set (list_events_body ''popularity'') \<and>
   list_events_in repaired_services db page page_size search category_filter price_min price_max
       sort_option
     = Inl (NameError ''EventFilter'') \<and>
   import_from repaired_services ''search'' [''build_event_query'']
     = Inr [''build_event_query''] \<and>
   load_names (module_globals services_search)
     (build_event_query_reads search category_filter price_min price_max sort_option) = Inr ()"
proof (intro conjI)
  show "list_events db page page_size search category_filter price_min price_max sort_option
     = Inl (SyntaxError ''from __future__ imports must occur at the beginning of the file'')"
    by (simp add: list_events_def list_events_in_eq import_from_app_services)
  show "import_from app_services ''search'' [''build_event_query'']
     = Inl (SyntaxError ''from __future__ imports must occur at the beginning of the file'')"
    by (rule import_from_app_services)
  show "''EventFilter'' \<notin> set (module_globals crud_events) \<union> set python_builtins"
    and "''timedelta'' \<notin> set (module_globals crud_events) \<union> set python_builtins"
    by (rule unbound_names)+
  show "Load ''timedelta'' \<in> set (list_events_body ''popularity'')"
    by (simp add: list_events_body_def)
  show "list_events_in repaired_services db page page_size search category_filter price_min
       price_max sort_option
     = Inl (NameError ''EventFilter'')"
    by (simp add: list_events_in_eq import_from_repaired)
  show "import_from repaired_services ''search'' [''build_event_query'']
     = Inr [''build_event_query'']"
    by (rule import_from_repaired)
  show "load_names (module_globals services_search)
     (build_event_query_reads search category_filter price_min price_max sort_option) = Inr ()"
    by (rule build_event_query_names)
qed

theorem list_events_default_call:
  "list_events db_open 1 20 None None None None ''recent''
     = Inl (SyntaxError ''from __future__ imports must occur at the beginning of the file'') \<and>
   list_events db_open 1 20 (Some ''yoga'') (Some ''Design'') (Some 0) (Some 5000) ''popularity''
     = Inl (SyntaxError ''from __future__ imports must occur at the beginning of the file'')"
  using list_events_raises_syntax_error [of db_open 1 20 None None None None "''recent''"]
    list_events_raises_syntax_error [of db_open 1 20 "Some ''yoga''" "Some ''Design''" "Some 0"
      "Some 5000" "''popularity''"]
  by simp
section \<open>Properties of the popularity sort\<close>

lemma mset_order_insert [simp]: "mset (order_insert le x xs) = add_mset x (mset xs)"
  by (induction xs) simp_all

lemma mset_order_by [simp]: "mset (order_by le xs) = mset xs"
  unfolding order_by_def by (induction xs) simp_all

lemma set_order_insert [simp]: "set (order_insert le x xs) = insert x (set xs)"
  by (induction xs) auto

lemma set_order_by [simp]: "set (order_by le xs) = set xs"
  unfolding order_by_def by (induction xs) simp_all

lemma sorted_wrt_order_insert:
  assumes total: "\<And>x y. le x y \<or> le y x" and trans: "\<And>x y z. le x y \<Longrightarrow> le y z \<Longrightarrow> le x z"
  shows "sorted_wrt le xs \<Longrightarrow> sorted_wrt le (order_insert le x xs)"
proof (induction xs)
  case Nil
  then show ?case by simp
next
  case (Cons y ys)
  show ?case
  proof (cases "le x y")
    case True
    with Cons.prems show ?thesis by (auto intro: trans)
  next
    case False
    with total [of x y] have "le y x" by blast
    with False Cons show ?thesis by auto
  qed
qed

lemma sorted_wrt_order_by:
  assumes "\<And>x y. le x y \<or> le y x" and "\<And>x y z. le x y \<Longrightarrow> le y z \<Longrightarrow> le x z"
  shows "sorted_wrt le (order_by le xs)"
  unfolding order_by_def
  by (induction xs) (simp_all add: sorted_wrt_order_insert [OF assms])

lemma length_filter_disj:
  "(\<And>x. x \<in> set xs \<Longrightarrow> \<not> (P x \<and> Q x)) \<Longrightarrow>
   length (filter (\<lambda>x. P x \<or> Q x) xs) = length (filter P xs) + length (filter Q xs)"
  by (induction xs) auto

lemma join_count:
  assumes "distinct (map slot_id ss)"
  shows "length (filter (\<lambda>(s, b). C b \<and> slot_event_id s = eid)
            (concat (map (\<lambda>s. map (\<lambda>b. (s, b))
                          (filter (\<lambda>b. booking_slot_id b = slot_id s) bs)) ss)))
       = length (filter (\<lambda>b. C b \<and> eid \<in> set (map slot_event_id
                             (filter (\<lambda>s. slot_id s = booking_slot_id b) ss))) bs)"
  using assms
proof (induction ss)
  case Nil
  then show ?case by simp
next
  case (Cons s ss)
  let ?here = "\<lambda>b. booking_slot_id b = slot_id s \<and> C b \<and> slot_event_id s = eid"
  let ?rest = "\<lambda>b. C b \<and> eid \<in> set (map slot_event_id
                             (filter (\<lambda>s. slot_id s = booking_slot_id b) ss))"
  from Cons.prems have fresh: "slot_id s \<notin> set (map slot_id ss)" and d: "distinct (map slot_id ss)"
    by simp_all
  have other: "slot_id s' \<noteq> slot_id s" if "s' \<in> set ss" for s'
    using fresh that by (metis image_eqI set_map)
  have none: "filter (\<lambda>s'. slot_id s' = booking_slot_id b) ss = []"
    if "booking_slot_id b = slot_id s" for b
    using that other by (simp add: filter_empty_conv)
  have first: "length (filter (\<lambda>(s, b). C b \<and> slot_event_id s = eid)
                  (map (\<lambda>b. (s, b)) (filter (\<lambda>b. booking_slot_id b = slot_id s) bs)))
               = length (filter ?here bs)"
    by (simp add: filter_map comp_def conj_commute conj_left_commute)
  have split: "(\<lambda>b. C b \<and> eid \<in> set (map slot_event_id
                   (filter (\<lambda>s'. slot_id s' = booking_slot_id b) (s # ss))))
               = (\<lambda>b. ?here b \<or> ?rest b)"
  proof
    fix b
    show "(C b \<and> eid \<in> set (map slot_event_id
                   (filter (\<lambda>s'. slot_id s' = booking_slot_id b) (s # ss))))
          = (?here b \<or> ?rest b)"
      by (cases "booking_slot_id b = slot_id s") (auto simp: none)
  qed
  have disj: "\<not> (?here b \<and> ?rest b)" for b
    using other by (cases "booking_slot_id b = slot_id s") auto
  have "length (filter (\<lambda>(s, b). C b \<and> slot_event_id s = eid)
            (concat (map (\<lambda>s. map (\<lambda>b. (s, b))
                          (filter (\<lambda>b. booking_slot_id b = slot_id s) bs)) (s # ss))))
        = length (filter (\<lambda>(s, b). C b \<and> slot_event_id s = eid)
                  (map (\<lambda>b. (s, b)) (filter (\<lambda>b. booking_slot_id b = slot_id s) bs)))
          + length (filter (\<lambda>(s, b). C b \<and> slot_event_id s = eid)
            (concat (map (\<lambda>s. map (\<lambda>b. (s, b))
                          (filter (\<lambda>b. booking_slot_id b = slot_id s) bs)) ss)))"
    by simp
  also have "\<dots> = length (filter ?here bs) + length (filter ?rest bs)"
    by (simp only: first Cons.IH [OF d])
  also have "\<dots> = length (filter (\<lambda>b. ?here b \<or> ?rest b) bs)"
    by (rule length_filter_disj [symmetric]) (rule disj)
  finally show ?case by (simp only: split)
qed

lemma filter_keyed_distinct:
  "distinct ks \<Longrightarrow>
   filter (\<lambda>(k', c). k = k') (map (\<lambda>k. (k, f k)) ks) = (if k \<in> set ks then [(k, f k)] else [])"
  by (induction ks) auto

lemma popularity_sub_lookup:
  assumes "distinct (map slot_id (slots db))"
  shows "filter (\<lambda>(eid, pop_count). k = eid) (popularity_sub db t)
         = (if recent_count db t k > 0 then [(k, recent_count db t k)] else [])"
proof -
  define joined where "joined = concat (map (\<lambda>s. map (\<lambda>b. (s, b))
        (filter (\<lambda>b. booking_slot_id b = slot_id s) (bookings db))) (slots db))"
  define kept where "kept = filter (\<lambda>(s, b). booking_status b = CONFIRMED \<and> booked_at b \<ge> t) joined"
  define f where "f = (\<lambda>eid. int (length (filter (\<lambda>(s :: Slot, b :: Booking). slot_event_id s = eid) kept)))"
  have sub: "popularity_sub db t
               = map (\<lambda>eid. (eid, f eid)) (remdups (map (\<lambda>(s, b). slot_event_id s) kept))"
    by (simp add: popularity_sub_def Let_def joined_def kept_def f_def)
  have "filter (\<lambda>(s, b). slot_event_id s = k) kept
        = filter (\<lambda>(s, b). (booking_status b = CONFIRMED \<and> t \<le> booked_at b)
                            \<and> slot_event_id s = k) joined"
    unfolding kept_def by (auto intro: filter_cong)
  also have "length \<dots> = length (filter
       (\<lambda>b. (booking_status b = CONFIRMED \<and> t \<le> booked_at b)
            \<and> k \<in> set (map slot_event_id
                             (filter (\<lambda>s. slot_id s = booking_slot_id b) (slots db))))
       (bookings db))"
    unfolding joined_def by (rule join_count [OF assms])
  finally have fk: "f k = recent_count db t k"
    by (simp only: f_def recent_count_def)
  have "k \<in> set (map (\<lambda>(s, b). slot_event_id s) kept) \<longleftrightarrow> f k > 0"
    by (force simp: f_def filter_empty_conv image_iff)
  then show ?thesis
    unfolding sub using fk
    by (simp add: filter_keyed_distinct [of _ k f])
qed

lemma outer_join_popularity:
  assumes "distinct (map slot_id (slots db))"
  shows "outer_join stmt (popularity_sub db t) = map (\<lambda>e. (e, pop_of db t e)) stmt"
proof -
  have "\<And>e. (case filter (\<lambda>(eid, pop_count). event_id e = eid) (popularity_sub db t) of
                [] \<Rightarrow> [(e, None)]
              | ms \<Rightarrow> map (\<lambda>(eid, pop_count). (e, Some pop_count)) ms)
             = [(e, pop_of db t e)]"
    by (simp add: popularity_sub_lookup [OF assms] pop_of_def)
  then show ?thesis
    by (simp add: outer_join_def)
qed

lemma recent_count_window:
  assumes "\<forall>b \<in> set (bookings db). booked_at b \<le> now"
  shows "recent_count db (now - timedelta_days 30) eid = recent_confirmed_count db now eid"
  unfolding recent_count_def recent_confirmed_count_def
  using assms by (auto intro!: arg_cong [where f = length] filter_cong)

lemma recent_count_nonneg: "0 \<le> recent_count db t eid"
  by (simp add: recent_count_def)

lemma desc_nullslast_total: "desc_nullslast p q \<or> desc_nullslast q p \<or> p = q"
  by (cases p; cases q) auto

lemma desc_nullslast_trans: "desc_nullslast p q \<Longrightarrow> desc_nullslast q r \<Longrightarrow> desc_nullslast p r"
  by (cases p; cases q; cases r) auto

lemma popularity_le_total: "popularity_le x y \<or> popularity_le y x"
  using desc_nullslast_total [of "snd x" "snd y"]
  by (cases x; cases y) (auto simp: popularity_le_def)

lemma popularity_le_trans: "popularity_le x y \<Longrightarrow> popularity_le y z \<Longrightarrow> popularity_le x z"
  by (cases x; cases y; cases z) (auto simp: popularity_le_def dest: desc_nullslast_trans)

lemma apply_sort_popularity:
  assumes "distinct (map slot_id (slots db))"
  shows "apply_sort db now stmt ''popularity''
         = map fst (order_by popularity_le
                      (map (\<lambda>e. (e, pop_of db (now - timedelta_days 30) e)) stmt))"
  by (simp add: apply_sort_def Let_def outer_join_popularity [OF assms] popularity_le_def)

lemma popularity_le_counts:
  "popularity_le (a, pop_of db t a) (b, pop_of db t b)
   \<longleftrightarrow> recent_count db t (event_id a) > recent_count db t (event_id b)
       \<or> (recent_count db t (event_id a) = recent_count db t (event_id b)
           \<and> created_at a \<ge> created_at b)"
  using recent_count_nonneg [of db t "event_id a"] recent_count_nonneg [of db t "event_id b"]
  by (auto simp: pop_of_def popularity_le_def)

lemma popularity_sorted:
  assumes pk: "distinct (map slot_id (slots db))"
    and past: "\<forall>b \<in> set (bookings db). booked_at b \<le> now"
  shows "sorted_wrt (\<lambda>a b. recent_confirmed_count db now (event_id a)
                               > recent_confirmed_count db now (event_id b)
                           \<or> (recent_confirmed_count db now (event_id a)
                                 = recent_confirmed_count db now (event_id b)
                               \<and> created_at a \<ge> created_at b))
           (apply_sort db now stmt ''popularity'')"
proof -
  let ?t = "now - timedelta_days 30"
  let ?rows = "order_by popularity_le (map (\<lambda>e. (e, pop_of db ?t e)) stmt)"
  have "sorted_wrt popularity_le ?rows"
    by (rule sorted_wrt_order_by [OF popularity_le_total popularity_le_trans])
  moreover have "\<And>x. x \<in> set ?rows \<Longrightarrow> x = (fst x, pop_of db ?t (fst x))"
    by auto
  ultimately have "sorted_wrt (\<lambda>x y. popularity_le (fst x, pop_of db ?t (fst x))
                                               (fst y, pop_of db ?t (fst y))) ?rows"
    by (rule_tac sorted_wrt_mono_rel [where P = popularity_le]) auto
  then show ?thesis
    unfolding apply_sort_popularity [OF pk] sorted_wrt_map popularity_le_counts
      recent_count_window [OF past] .
qed

lemma popularity_mset:
  assumes "distinct (map slot_id (slots db))"
  shows "mset (apply_sort db now stmt ''popularity'') = mset stmt"
proof -
  have "mset (map fst (order_by popularity_le
                 (map (\<lambda>e. (e, pop_of db (now - timedelta_days 30) e)) stmt)))
        = image_mset fst (mset (map (\<lambda>e. (e, pop_of db (now - timedelta_days 30) e)) stmt))"
    by (simp only: mset_map mset_order_by)
  also have "\<dots> = mset stmt"
    by (simp add: image_mset.compositionality comp_def)
  finally show ?thesis unfolding apply_sort_popularity [OF assms] .
qed

lemma no_recent_bookings:
  assumes "\<forall>b \<in> set (bookings db).
             eid \<in> set (map slot_event_id (filter (\<lambda>s. slot_id s = booking_slot_id b) (slots db)))
             \<longrightarrow> booked_at b < now - timedelta_days 30"
  shows "recent_confirmed_count db now eid = 0"
  using assms by (auto simp: recent_confirmed_count_def filter_empty_conv)

lemmas popular_defs =
  db_popular_def example_event_def example_booking_def slot_A_def timedelta_days_def

lemma popular_counts:
  "recent_confirmed_count db_popular (timedelta_days 100) ''eA'' = 5"
  "recent_confirmed_count db_popular (timedelta_days 100) ''eB'' = 0"
  "recent_confirmed_count db_popular (timedelta_days 100) ''eC'' = 0"
  by (simp_all add: recent_confirmed_count_def popular_defs)

lemma popular_sub:
  "popularity_sub db_popular (timedelta_days 100 - timedelta_days 30) = [(''eA'', 5)]"
  by (simp add: popularity_sub_def Let_def popular_defs)

text \<open>
  Claim C8. With \<^verbatim>\<open>sort = popularity\<close>, the events are ordered by the number of CONFIRMED
  bookings, over the event's slots, whose \<^verbatim>\<open>booked_at\<close> lies within the 30 days before the
  evaluation time, in descending order, null and zero counts last, creation time
  descending as tiebreak; the join is an outer one, so every event that the statement
  selects appears in the result, exactly once, also with no recent booking. In particular
  an event with 5 such bookings ranks above one with none, and an event whose bookings are
  all older than 30 days has none. Slot ids are the primary key of the slot table, and no
  booking is stamped later than the evaluation time.
\<close>

theorem popularity_sort_order:
  assumes pk: "distinct (map slot_id (slots db))"
    and past: "\<forall>b \<in> set (bookings db). booked_at b \<le> now"
  shows "mset (apply_sort db now stmt ''popularity'') = mset stmt \<and>
         sorted_wrt (\<lambda>a b. recent_confirmed_count db now (event_id a)
                               > recent_confirmed_count db now (event_id b)
                           \<or> (recent_confirmed_count db now (event_id a)
                                 = recent_confirmed_count db now (event_id b)
                               \<and> created_at a \<ge> created_at b))
           (apply_sort db now stmt ''popularity'') \<and>
         (\<forall>i j. i < length stmt \<and> j < length stmt \<and>
            recent_confirmed_count db now (event_id (apply_sort db now stmt ''popularity'' ! i)) = 5 \<and>
            recent_confirmed_count db now (event_id (apply_sort db now stmt ''popularity'' ! j)) = 0
            \<longrightarrow> i < j) \<and>
         (\<forall>eid. (\<forall>b \<in> set (bookings db).
                   eid \<in> set (map slot_event_id
                                 (filter (\<lambda>s. slot_id s = booking_slot_id b) (slots db)))
                   \<longrightarrow> booked_at b < now - timedelta_days 30)
                \<longrightarrow> recent_confirmed_count db now eid = 0)"
proof (intro conjI allI impI)
  let ?res = "apply_sort db now stmt ''popularity''"
  let ?cnt = "\<lambda>e. recent_confirmed_count db now (event_id e)"
  show m: "mset ?res = mset stmt" by (rule popularity_mset [OF pk])
  show s: "sorted_wrt (\<lambda>a b. ?cnt a > ?cnt b \<or> (?cnt a = ?cnt b \<and> created_at a \<ge> created_at b)) ?res"
    by (rule popularity_sorted [OF pk past])
  have len: "length ?res = length stmt"
    using m by (metis size_mset)
  fix i j
  assume a: "i < length stmt \<and> j < length stmt \<and> ?cnt (?res ! i) = 5 \<and> ?cnt (?res ! j) = 0"
  show "i < j"
  proof (rule ccontr)
    assume "\<not> i < j"
    then consider "j < i" | "i = j" by linarith
    then show False
    proof cases
      case 1
      from a len have "i < length ?res" by simp
      from sorted_wrt_nth_less [OF s 1 this]
      have "?cnt (?res ! j) > ?cnt (?res ! i)
          \<or> (?cnt (?res ! j) = ?cnt (?res ! i) \<and> created_at (?res ! j) \<ge> created_at (?res ! i))" .
      with a show False by simp
    next
      case 2
      with a have "(5::int) = 0" by metis
      then show False by simp
    qed
  qed
next
  fix eid
  assume "\<forall>b \<in> set (bookings db).
             eid \<in> set (map slot_event_id (filter (\<lambda>s. slot_id s = booking_slot_id b) (slots db)))
             \<longrightarrow> booked_at b < now - timedelta_days 30"
  then show "recent_confirmed_count db now eid = 0" by (rule no_recent_bookings)
qed

theorem popularity_sort_order_witness:
  "distinct (map slot_id (slots db_popular)) \<and>
   recent_confirmed_count db_popular (timedelta_days 100) ''eA'' = 5 \<and>
   recent_confirmed_count db_popular (timedelta_days 100) ''eB'' = 0 \<and>
   recent_confirmed_count db_popular (timedelta_days 100) ''eC'' = 0 \<and>
   apply_sort db_popular (timedelta_days 100) (events db_popular) ''popularity''
     = [example_event ''eA'' 300, example_event ''eB'' 200, example_event ''eC'' 100]"
proof -
  have pk: "distinct (map slot_id (slots db_popular))"
    by (simp add: popular_defs)
  have past: "\<forall>b \<in> set (bookings db_popular). booked_at b \<le> timedelta_days 100"
    by (simp add: popular_defs)
  have sorted: "apply_sort db_popular (timedelta_days 100) (events db_popular) ''popularity''
     = [example_event ''eA'' 300, example_event ''eB'' 200, example_event ''eC'' 100]"
    unfolding apply_sort_def Let_def popular_sub
    by (simp add: outer_join_def order_by_def db_popular_def example_event_def)
  show ?thesis
    using pk popular_counts sorted
      popularity_sort_order [OF pk past, of "events db_popular"]
    by simp
qed


end
